theory Spec2Isabelle
  imports Complex_Main "HOL-Library.Log_Nat" "HOL-Library.Word"
begin

section \<open>JavaScript numbers\<close>

text \<open>
  A TypeScript \<open>number\<close> is an IEEE-754 double: \<open>NaN\<close>, the two infinities, and the
  finite values \<open>m * 2^e\<close> with \<open>m\<close> an integer of magnitude below \<open>2^53\<close> and \<open>e\<close>
  from \<open>-1074\<close> to \<open>971\<close>. A finite double is the rational number it denotes, and the
  result of an arithmetic operation is the exact result rounded to the nearest double,
  a tie going to the even significand, and to an infinity from \<open>2^1024 - 2^970\<close> on.
  The two zeros are one value (\<open>0 === -0\<close> holds in the source language).
\<close>

datatype number = Fin rat | PosInf | NegInf | NaN

text \<open>The integer nearest to a rational, the even one of two that are equally near.\<close>

definition round_half_even :: "rat \<Rightarrow> int" where
  "round_half_even q =
     (let f = \<lfloor>q\<rfloor>; d = q - of_int f
      in if d < 1 / 2 then f else if 1 / 2 < d then f + 1 else if even f then f else f + 1)"

text \<open>
  The binary exponent of a positive rational \<open>a\<close>: the \<open>k\<close> with
  \<open>2^k \<le> a < 2^(k+1)\<close>, from the bit length of its integer part or, below 1, of the
  integer part of its inverse.
\<close>

definition binary_exponent :: "rat \<Rightarrow> int" where
  "binary_exponent a =
     (if 1 \<le> a then bitlen \<lfloor>a\<rfloor> - 1 else - bitlen (\<lceil>1 / a\<rceil> - 1))"

text \<open>
  Rounding to double: the significand has 53 bits, so the unit in the last place is
  \<open>2^(k - 52)\<close>, and not below the \<open>2^(-1074)\<close> of the subnormal numbers.
\<close>

definition to_double :: "rat \<Rightarrow> number" where
  "to_double x =
     (if x = 0 then Fin 0
      else
        let a = \<bar>x\<bar>;
            e = max (binary_exponent a - 52) (- 1074);
            m = round_half_even (a / power_int 2 e);
            r = of_int m * power_int 2 e
        in if 2 ^ 1024 \<le> r then (if 0 < x then PosInf else NegInf)
           else Fin (if 0 < x then r else - r))"

text \<open>\<open>a < b\<close> of the source language: false as soon as one side is \<open>NaN\<close>.\<close>

fun js_lt :: "number \<Rightarrow> number \<Rightarrow> bool" where
  "js_lt NaN b = False"
| "js_lt a NaN = False"
| "js_lt (Fin a) (Fin b) = (a < b)"
| "js_lt (Fin a) PosInf = True"
| "js_lt (Fin a) NegInf = False"
| "js_lt PosInf b = False"
| "js_lt NegInf (Fin b) = True"
| "js_lt NegInf PosInf = True"
| "js_lt NegInf NegInf = False"

text \<open>\<open>a <= b\<close>: false on \<open>NaN\<close>, otherwise the negation of \<open>b < a\<close>.\<close>

fun js_le :: "number \<Rightarrow> number \<Rightarrow> bool" where
  "js_le NaN b = False"
| "js_le a NaN = False"
| "js_le a b = (\<not> js_lt b a)"

definition js_gt :: "number \<Rightarrow> number \<Rightarrow> bool" where
  "js_gt a b = js_lt b a"

definition js_ge :: "number \<Rightarrow> number \<Rightarrow> bool" where
  "js_ge a b = js_le b a"

text \<open>\<open>a === b\<close> on numbers: \<open>NaN\<close> is equal to nothing, itself included.\<close>

fun js_eq :: "number \<Rightarrow> number \<Rightarrow> bool" where
  "js_eq NaN b = False"
| "js_eq a NaN = False"
| "js_eq a b = (a = b)"

fun js_neg :: "number \<Rightarrow> number" where
  "js_neg (Fin a) = Fin (- a)"
| "js_neg PosInf = NegInf"
| "js_neg NegInf = PosInf"
| "js_neg NaN = NaN"

fun js_add :: "number \<Rightarrow> number \<Rightarrow> number" where
  "js_add NaN b = NaN"
| "js_add a NaN = NaN"
| "js_add (Fin a) (Fin b) = to_double (a + b)"
| "js_add (Fin a) b = b"
| "js_add a (Fin b) = a"
| "js_add PosInf PosInf = PosInf"
| "js_add NegInf NegInf = NegInf"
| "js_add PosInf NegInf = NaN"
| "js_add NegInf PosInf = NaN"

text \<open>\<open>a - b\<close> is \<open>a + (-b)\<close>: the negation is exact and the sum is rounded once.\<close>

definition js_sub :: "number \<Rightarrow> number \<Rightarrow> number" where
  "js_sub a b = js_add a (js_neg b)"

text \<open>
  \<open>a / b\<close>: the quotient of two finite numbers is rounded to double. A zero divisor is
  taken as \<open>+0\<close>, the sign of a zero not being part of the model; an infinity divided by
  a finite number takes its sign from both operands.
\<close>

fun js_div :: "number \<Rightarrow> number \<Rightarrow> number" where
  "js_div NaN b = NaN"
| "js_div a NaN = NaN"
| "js_div (Fin a) (Fin b) =
     (if b \<noteq> 0 then to_double (a / b)
      else if a = 0 then NaN else if 0 < a then PosInf else NegInf)"
| "js_div (Fin a) b = Fin 0"
| "js_div PosInf (Fin b) = (if 0 \<le> b then PosInf else NegInf)"
| "js_div NegInf (Fin b) = (if 0 \<le> b then NegInf else PosInf)"
| "js_div a b = NaN"

text \<open>\<open>Number.isFinite\<close> and \<open>Number.isInteger\<close>.\<close>

fun isFinite :: "number \<Rightarrow> bool" where
  "isFinite (Fin a) = True"
| "isFinite a = False"

fun isInteger :: "number \<Rightarrow> bool" where
  "isInteger (Fin a) = (of_int \<lfloor>a\<rfloor> = a)"
| "isInteger a = False"

section \<open>Errors\<close>

text \<open>
  Every \<open>throw new Error(message)\<close> of the sources is a value of this type, one
  constructor for each message:
  \<^item> \<open>IdadeForaDosLimites\<close>: "Idade deve estar entre 18 e 120 anos"
    (constructor of \<open>ContadorUsuarios\<close>);
  \<^item> \<open>IdadeInvalida\<close>: "Idade invalida: deve ser inteiro nao negativo." (setter of
    \<open>Pessoa.idade\<close>);
  \<^item> \<open>DivisaoPorZero\<close>: "Divisao por zero nao e permitida" (\<open>Calculadora.dividir\<close>);
  \<^item> \<open>ValorDeveSerPositivo\<close>: "Valor deve ser positivo" (\<open>ContaBancaria\<close>);
  \<^item> \<open>SaldoInsuficiente\<close>: "Saldo insuficiente" (\<open>ContaBancaria\<close>);
  \<^item> \<open>TypeError\<close>: the error of the runtime when a method is invoked on a reference that
    does not hold an object of the method's class, which the type checker of the source
    language excludes.
\<close>

datatype error =
    IdadeForaDosLimites
  | IdadeInvalida
  | DivisaoPorZero
  | ValorDeveSerPositivo
  | SaldoInsuficiente
  | TypeError

section \<open>Static members: \<open>ContadorUsuarios\<close>\<close>

text \<open>
  The two private static counters are the class-level state, numbers like every other:
  \<open>++\<close> adds 1 with the rounding of the doubles. The constructor takes the class-level
  state and returns it with its result: the error thrown, or the new instance.
\<close>

record ContadorUsuarios_static =
  totalUsuarios :: number
  proximoId :: number

record ContadorUsuarios =
  usuario_id :: number
  usuario_nome :: string
  usuario_idade :: number

definition ContadorUsuarios_carregada :: ContadorUsuarios_static where
  "ContadorUsuarios_carregada = \<lparr>totalUsuarios = Fin 0, proximoId = Fin 1\<rparr>"

definition IDADE_MINIMA :: number where
  "IDADE_MINIMA = Fin 18"

definition IDADE_MAXIMA :: number where
  "IDADE_MAXIMA = Fin 120"

definition validarIdade :: "number \<Rightarrow> bool" where
  "validarIdade idade = (js_ge idade IDADE_MINIMA \<and> js_le idade IDADE_MAXIMA)"

definition new_ContadorUsuarios ::
  "string \<Rightarrow> number \<Rightarrow> ContadorUsuarios_static
     \<Rightarrow> (error + ContadorUsuarios) \<times> ContadorUsuarios_static" where
  "new_ContadorUsuarios nome idade s =
     (if \<not> validarIdade idade then (Inl IdadeForaDosLimites, s)
      else
        let this_id = proximoId s;
            s1 = s\<lparr>proximoId := js_add (proximoId s) (Fin 1)\<rparr>;
            this = \<lparr>usuario_id = this_id, usuario_nome = nome, usuario_idade = idade\<rparr>;
            s2 = s1\<lparr>totalUsuarios := js_add (totalUsuarios s1) (Fin 1)\<rparr>
        in (Inr this, s2))"

definition getTotalUsuarios :: "ContadorUsuarios_static \<Rightarrow> number" where
  "getTotalUsuarios s = totalUsuarios s"

definition criarUsuarioAdulto ::
  "string \<Rightarrow> ContadorUsuarios_static
     \<Rightarrow> (error + ContadorUsuarios) \<times> ContadorUsuarios_static" where
  "criarUsuarioAdulto nome s = new_ContadorUsuarios nome IDADE_MINIMA s"

definition resetarContador :: "ContadorUsuarios_static \<Rightarrow> ContadorUsuarios_static" where
  "resetarContador s = s\<lparr>totalUsuarios := Fin 0, proximoId := Fin 1\<rparr>"

definition getId :: "ContadorUsuarios \<Rightarrow> number" where
  "getId this = usuario_id this"

text \<open>
  A run of construction attempts, each one under its own \<open>try\<close>/\<open>catch\<close> as in the
  demonstration block: an attempt that throws is followed by the next one.
\<close>

fun construir_todos ::
  "(string \<times> number) list \<Rightarrow> ContadorUsuarios_static
     \<Rightarrow> (error + ContadorUsuarios) list \<times> ContadorUsuarios_static" where
  "construir_todos [] s = ([], s)"
| "construir_todos ((nome, idade) # ts) s =
     (let (r, s1) = new_ContadorUsuarios nome idade s;
          (rs, s2) = construir_todos ts s1
      in (r # rs, s2))"

text \<open>
  The class-level state after \<open>n\<close> constructions with a valid age, one after the other.
\<close>

fun construir_n :: "nat \<Rightarrow> ContadorUsuarios_static \<Rightarrow> ContadorUsuarios_static" where
  "construir_n 0 s = s"
| "construir_n (Suc n) s =
     snd (new_ContadorUsuarios ''usuario'' IDADE_MINIMA (construir_n n s))"

text \<open>The instances built by a run, in the order of their construction.\<close>

fun construidos :: "(error + ContadorUsuarios) list \<Rightarrow> ContadorUsuarios list" where
  "construidos [] = []"
| "construidos (Inl e # rs) = construidos rs"
| "construidos (Inr u # rs) = u # construidos rs"

section \<open>Getters and setters: \<open>Pessoa\<close>\<close>

text \<open>
  The name of a \<open>Pessoa\<close> goes through \<open>String.prototype.trim\<close>, which removes the
  white space and line terminator characters of the language standard from both ends. Some
  of them lie beyond one byte, so the name is a list of UTF-16 code units, as a string of
  the source language is.
\<close>

type_synonym code_unit = "16 word"

type_synonym js_string = "code_unit list"

definition is_white_space :: "code_unit \<Rightarrow> bool" where
  "is_white_space c =
     (c = 0x0009 \<or> c = 0x000A \<or> c = 0x000B \<or> c = 0x000C \<or> c = 0x000D \<or> c = 0x0020
      \<or> c = 0x00A0 \<or> c = 0x1680 \<or> (0x2000 \<le> c \<and> c \<le> 0x200A) \<or> c = 0x2028
      \<or> c = 0x2029 \<or> c = 0x202F \<or> c = 0x205F \<or> c = 0x3000 \<or> c = 0xFEFF)"

definition trim :: "js_string \<Rightarrow> js_string" where
  "trim s = rev (dropWhile is_white_space (rev (dropWhile is_white_space s)))"

text \<open>
  The private fields \<open>_nome\<close> and \<open>_idade\<close>. A setter returns the object with what it
  threw, if anything: a throw comes before the assignment, so the object is then the one
  it was given.
\<close>

record Pessoa =
  pessoa_nome :: js_string
  pessoa_idade :: number

definition get_nome :: "Pessoa \<Rightarrow> js_string" where
  "get_nome this = pessoa_nome this"

definition set_nome :: "js_string \<Rightarrow> Pessoa \<Rightarrow> Pessoa" where
  "set_nome valor this = this\<lparr>pessoa_nome := trim valor\<rparr>"

definition get_idade :: "Pessoa \<Rightarrow> number" where
  "get_idade this = pessoa_idade this"

definition set_idade :: "number \<Rightarrow> Pessoa \<Rightarrow> (error + unit) \<times> Pessoa" where
  "set_idade valor this =
     (if \<not> isInteger valor \<or> js_lt valor (Fin 0) then (Inl IdadeInvalida, this)
      else (Inr (), this\<lparr>pessoa_idade := valor\<rparr>))"

definition ehAdulto :: "Pessoa \<Rightarrow> bool" where
  "ehAdulto this = js_ge (pessoa_idade this) (Fin 18)"

text \<open>
  The constructor assigns the trimmed name and then the age through the setter. Until the
  setter has run the field \<open>_idade\<close> holds no number; \<open>NaN\<close> stands for it here, and
  no result of the constructor shows it: the setter overwrites it or the construction
  throws.
\<close>

definition new_Pessoa :: "js_string \<Rightarrow> number \<Rightarrow> error + Pessoa" where
  "new_Pessoa nome idade =
     (let this = \<lparr>pessoa_nome = trim nome, pessoa_idade = NaN\<rparr>
      in case set_idade idade this of
           (Inl e, this') \<Rightarrow> Inl e
         | (Inr u, this') \<Rightarrow> Inr this')"

section \<open>Singletons: \<open>ConfiguracaoApp\<close>, \<open>Logger\<close>, \<open>ContadorGlobal\<close>\<close>

text \<open>
  Objects live in a heap, at references handed out by an allocation counter, so that
  identity of references is identity of objects. The three private static fields
  \<open>instancia\<close> are part of the state; \<open>None\<close> is the \<open>undefined\<close> they hold when the
  classes are loaded. An array of strings is an object of the heap of its own: the field
  \<open>logs\<close> of a \<open>Logger\<close> holds a reference to one. The \<open>Map\<close> of a
  \<open>ConfiguracaoApp\<close> never leaves the object and is kept inside it, as the list of its
  entries in order of insertion. What is written to the console is not part of the state.
\<close>

type_synonym ref = nat

datatype any = Undefined | Booleano bool | Numero number | Texto string

datatype nivel = INFO | WARN | ERROR

datatype obj =
    ConfiguracaoApp_obj "(string \<times> any) list"
  | Logger_obj ref
  | ContadorGlobal_obj number
  | Array_obj "string list"

record world =
  heap :: "ref \<Rightarrow> obj option"
  next_ref :: ref
  ConfiguracaoApp_instancia :: "ref option"
  Logger_instancia :: "ref option"
  ContadorGlobal_instancia :: "ref option"

definition initial_world :: world where
  "initial_world =
     \<lparr>heap = (\<lambda>r. None), next_ref = 0, ConfiguracaoApp_instancia = None,
      Logger_instancia = None, ContadorGlobal_instancia = None\<rparr>"

definition alloc :: "obj \<Rightarrow> world \<Rightarrow> ref \<times> world" where
  "alloc v w = (next_ref w, w\<lparr>heap := (heap w)(next_ref w \<mapsto> v), next_ref := next_ref w + 1\<rparr>)"

text \<open>\<open>Map.prototype.set\<close> and \<open>get\<close>: a key that is present keeps its place.\<close>

fun Map_set :: "string \<Rightarrow> any \<Rightarrow> (string \<times> any) list \<Rightarrow> (string \<times> any) list" where
  "Map_set k v [] = [(k, v)]"
| "Map_set k v ((k', v') # m) = (if k' = k then (k, v) # m else (k', v') # Map_set k v m)"

fun Map_get :: "string \<Rightarrow> (string \<times> any) list \<Rightarrow> any" where
  "Map_get k [] = Undefined"
| "Map_get k ((k', v') # m) = (if k' = k then v' else Map_get k m)"

definition carregarConfiguracoesPadrao :: "(string \<times> any) list \<Rightarrow> (string \<times> any) list" where
  "carregarConfiguracoesPadrao m =
     Map_set ''debug'' (Booleano False)
       (Map_set ''timeout'' (Numero (Fin 5000))
         (Map_set ''language'' (Texto ''pt-BR'')
           (Map_set ''theme'' (Texto ''dark'') m)))"

definition new_ConfiguracaoApp :: "world \<Rightarrow> ref \<times> world" where
  "new_ConfiguracaoApp w = alloc (ConfiguracaoApp_obj (carregarConfiguracoesPadrao [])) w"

definition ConfiguracaoApp_getInstance :: "world \<Rightarrow> ref \<times> world" where
  "ConfiguracaoApp_getInstance w =
     (case ConfiguracaoApp_instancia w of
        None \<Rightarrow>
          (let (r, w1) = new_ConfiguracaoApp w
           in (r, w1\<lparr>ConfiguracaoApp_instancia := Some r\<rparr>))
      | Some r \<Rightarrow> (r, w))"

definition getConfiguracao :: "ref \<Rightarrow> string \<Rightarrow> world \<Rightarrow> (error + any) \<times> world" where
  "getConfiguracao this chave w =
     (case heap w this of
        Some (ConfiguracaoApp_obj m) \<Rightarrow> (Inr (Map_get chave m), w)
      | _ \<Rightarrow> (Inl TypeError, w))"

definition setConfiguracao :: "ref \<Rightarrow> string \<Rightarrow> any \<Rightarrow> world \<Rightarrow> (error + unit) \<times> world" where
  "setConfiguracao this chave valor w =
     (case heap w this of
        Some (ConfiguracaoApp_obj m) \<Rightarrow>
          (Inr (), w\<lparr>heap := (heap w)(this \<mapsto> ConfiguracaoApp_obj (Map_set chave valor m))\<rparr>)
      | _ \<Rightarrow> (Inl TypeError, w))"

definition listarConfiguracoes :: "ref \<Rightarrow> world \<Rightarrow> (error + unit) \<times> world" where
  "listarConfiguracoes this w =
     (case heap w this of
        Some (ConfiguracaoApp_obj m) \<Rightarrow> (Inr (), w)
      | _ \<Rightarrow> (Inl TypeError, w))"

text \<open>
  A new \<open>Logger\<close>: the initialiser of the field \<open>logs\<close> allocates an empty array.
\<close>

definition new_Logger :: "world \<Rightarrow> ref \<times> world" where
  "new_Logger w =
     (let (a, w1) = alloc (Array_obj []) w
      in alloc (Logger_obj a) w1)"

definition Logger_getInstance :: "world \<Rightarrow> ref \<times> world" where
  "Logger_getInstance w =
     (case Logger_instancia w of
        None \<Rightarrow>
          (let (r, w1) = new_Logger w
           in (r, w1\<lparr>Logger_instancia := Some r\<rparr>))
      | Some r \<Rightarrow> (r, w))"

fun nivel_texto :: "nivel \<Rightarrow> string" where
  "nivel_texto INFO = ''INFO''"
| "nivel_texto WARN = ''WARN''"
| "nivel_texto ERROR = ''ERROR''"

text \<open>
  The array of a logger, read through the field \<open>logs\<close>; a reference that holds no
  logger, or a logger whose field holds no array, is the runtime's type error.
\<close>

definition logs_de :: "ref \<Rightarrow> world \<Rightarrow> error + (ref \<times> string list)" where
  "logs_de this w =
     (case heap w this of
        Some (Logger_obj a) \<Rightarrow>
          (case heap w a of
             Some (Array_obj xs) \<Rightarrow> Inr (a, xs)
           | _ \<Rightarrow> Inl TypeError)
      | _ \<Rightarrow> Inl TypeError)"

text \<open>
  \<open>log\<close> pushes the entry onto the array in place. The time stamp, which the source reads
  from the clock, is an argument.
\<close>

definition Logger_log :: "ref \<Rightarrow> string \<Rightarrow> nivel \<Rightarrow> string \<Rightarrow> world \<Rightarrow> (error + unit) \<times> world" where
  "Logger_log this timestamp nv mensagem w =
     (let logEntry = ''['' @ timestamp @ ''] '' @ nivel_texto nv @ '': '' @ mensagem
      in case logs_de this w of
           Inl e \<Rightarrow> (Inl e, w)
         | Inr (a, xs) \<Rightarrow> (Inr (), w\<lparr>heap := (heap w)(a \<mapsto> Array_obj (xs @ [logEntry]))\<rparr>))"

definition Logger_info :: "ref \<Rightarrow> string \<Rightarrow> string \<Rightarrow> world \<Rightarrow> (error + unit) \<times> world" where
  "Logger_info this timestamp mensagem w = Logger_log this timestamp INFO mensagem w"

definition Logger_warn :: "ref \<Rightarrow> string \<Rightarrow> string \<Rightarrow> world \<Rightarrow> (error + unit) \<times> world" where
  "Logger_warn this timestamp mensagem w = Logger_log this timestamp WARN mensagem w"

definition Logger_error :: "ref \<Rightarrow> string \<Rightarrow> string \<Rightarrow> world \<Rightarrow> (error + unit) \<times> world" where
  "Logger_error this timestamp mensagem w = Logger_log this timestamp ERROR mensagem w"

text \<open>\<open>getLogs\<close> spreads the array into a new one and returns the reference to it.\<close>

definition getLogs :: "ref \<Rightarrow> world \<Rightarrow> (error + ref) \<times> world" where
  "getLogs this w =
     (case logs_de this w of
        Inl e \<Rightarrow> (Inl e, w)
      | Inr (a, xs) \<Rightarrow> (let (r, w1) = alloc (Array_obj xs) w in (Inr r, w1)))"

text \<open>\<open>limparLogs\<close> points the field at a new empty array.\<close>

definition limparLogs :: "ref \<Rightarrow> world \<Rightarrow> (error + unit) \<times> world" where
  "limparLogs this w =
     (case heap w this of
        Some (Logger_obj a) \<Rightarrow>
          (let (a', w1) = alloc (Array_obj []) w
           in (Inr (), w1\<lparr>heap := (heap w1)(this \<mapsto> Logger_obj a')\<rparr>))
      | _ \<Rightarrow> (Inl TypeError, w))"

text \<open>\<open>Array.prototype.join\<close>.\<close>

fun join :: "string \<Rightarrow> string list \<Rightarrow> string" where
  "join sep [] = []"
| "join sep [x] = x"
| "join sep (x # y # ys) = x @ sep @ join sep (y # ys)"

definition exportarLogs :: "ref \<Rightarrow> world \<Rightarrow> (error + string) \<times> world" where
  "exportarLogs this w =
     (case logs_de this w of
        Inl e \<Rightarrow> (Inl e, w)
      | Inr (a, xs) \<Rightarrow> (Inr (join [CHR 0x0A] xs), w))"

definition new_ContadorGlobal :: "world \<Rightarrow> ref \<times> world" where
  "new_ContadorGlobal w = alloc (ContadorGlobal_obj (Fin 0)) w"

definition ContadorGlobal_getInstance :: "world \<Rightarrow> ref \<times> world" where
  "ContadorGlobal_getInstance w =
     (case ContadorGlobal_instancia w of
        None \<Rightarrow>
          (let (r, w1) = new_ContadorGlobal w
           in (r, w1\<lparr>ContadorGlobal_instancia := Some r\<rparr>))
      | Some r \<Rightarrow> (r, w))"

definition incrementar :: "ref \<Rightarrow> world \<Rightarrow> (error + number) \<times> world" where
  "incrementar this w =
     (case heap w this of
        Some (ContadorGlobal_obj c) \<Rightarrow>
          (Inr (js_add c (Fin 1)),
           w\<lparr>heap := (heap w)(this \<mapsto> ContadorGlobal_obj (js_add c (Fin 1)))\<rparr>)
      | _ \<Rightarrow> (Inl TypeError, w))"

definition decrementar :: "ref \<Rightarrow> world \<Rightarrow> (error + number) \<times> world" where
  "decrementar this w =
     (case heap w this of
        Some (ContadorGlobal_obj c) \<Rightarrow>
          (Inr (js_sub c (Fin 1)),
           w\<lparr>heap := (heap w)(this \<mapsto> ContadorGlobal_obj (js_sub c (Fin 1)))\<rparr>)
      | _ \<Rightarrow> (Inl TypeError, w))"

definition getValor :: "ref \<Rightarrow> world \<Rightarrow> (error + number) \<times> world" where
  "getValor this w =
     (case heap w this of
        Some (ContadorGlobal_obj c) \<Rightarrow> (Inr c, w)
      | _ \<Rightarrow> (Inl TypeError, w))"

definition resetar :: "ref \<Rightarrow> world \<Rightarrow> (error + unit) \<times> world" where
  "resetar this w =
     (case heap w this of
        Some (ContadorGlobal_obj c) \<Rightarrow>
          (Inr (), w\<lparr>heap := (heap w)(this \<mapsto> ContadorGlobal_obj (Fin 0))\<rparr>)
      | _ \<Rightarrow> (Inl TypeError, w))"

text \<open>
  What a caller can do to an array it holds a reference to (\<open>push\<close>, \<open>pop\<close>, \<open>splice\<close>,
  an assignment to an index or to \<open>length\<close>): the array object stays where it is and its
  elements become some other list.
\<close>

definition array_mutate :: "ref \<Rightarrow> string list \<Rightarrow> world \<Rightarrow> world" where
  "array_mutate r ys w =
     (case heap w r of
        Some (Array_obj xs) \<Rightarrow> w\<lparr>heap := (heap w)(r \<mapsto> Array_obj ys)\<rparr>
      | _ \<Rightarrow> w)"

text \<open>
  The calls a program of this module can make: every public static and instance method of
  the three classes, on any receiver, and the mutation of an array (\<open>info\<close>,
  \<open>warn\<close> and \<open>error\<close> are \<open>log\<close> at their level). Their results are dropped
  here; a call that throws is followed by the next one, as under \<open>try\<close>/\<open>catch\<close>.
  The constructors are private and are reached through \<open>getInstance\<close> only.
\<close>

datatype call =
    Call_ConfiguracaoApp_getInstance
  | Call_getConfiguracao ref string
  | Call_setConfiguracao ref string any
  | Call_listarConfiguracoes ref
  | Call_Logger_getInstance
  | Call_log ref string nivel string
  | Call_getLogs ref
  | Call_limparLogs ref
  | Call_exportarLogs ref
  | Call_ContadorGlobal_getInstance
  | Call_incrementar ref
  | Call_decrementar ref
  | Call_getValor ref
  | Call_resetar ref
  | Call_array_mutate ref "string list"

fun exec :: "call \<Rightarrow> world \<Rightarrow> world" where
  "exec Call_ConfiguracaoApp_getInstance w = snd (ConfiguracaoApp_getInstance w)"
| "exec (Call_getConfiguracao this chave) w = snd (getConfiguracao this chave w)"
| "exec (Call_setConfiguracao this chave valor) w = snd (setConfiguracao this chave valor w)"
| "exec (Call_listarConfiguracoes this) w = snd (listarConfiguracoes this w)"
| "exec Call_Logger_getInstance w = snd (Logger_getInstance w)"
| "exec (Call_log this timestamp nv mensagem) w = snd (Logger_log this timestamp nv mensagem w)"
| "exec (Call_getLogs this) w = snd (getLogs this w)"
| "exec (Call_limparLogs this) w = snd (limparLogs this w)"
| "exec (Call_exportarLogs this) w = snd (exportarLogs this w)"
| "exec Call_ContadorGlobal_getInstance w = snd (ContadorGlobal_getInstance w)"
| "exec (Call_incrementar this) w = snd (incrementar this w)"
| "exec (Call_decrementar this) w = snd (decrementar this w)"
| "exec (Call_getValor this) w = snd (getValor this w)"
| "exec (Call_resetar this) w = snd (resetar this w)"
| "exec (Call_array_mutate r ys) w = array_mutate r ys w"

fun exec_all :: "call list \<Rightarrow> world \<Rightarrow> world" where
  "exec_all [] w = w"
| "exec_all (c # cs) w = exec_all cs (exec c w)"

text \<open>
  Every object lies below the allocation counter, the field of every logger refers to an
  array, and the cached logger is a logger.
\<close>

definition bem_formado :: "world \<Rightarrow> bool" where
  "bem_formado w =
     ((\<forall>r. next_ref w \<le> r \<longrightarrow> heap w r = None)
      \<and> (\<forall>l a. heap w l = Some (Logger_obj a) \<longrightarrow> (\<exists>xs. heap w a = Some (Array_obj xs)))
      \<and> (\<forall>l. Logger_instancia w = Some l \<longrightarrow> (\<exists>a. heap w l = Some (Logger_obj a))))"

text \<open>
  The world of the demonstration block once it has asked each class for its instance and
  logged three messages: the configuration is at reference 0, the array of the logger at 1,
  the logger at 2 and the counter at 3.
\<close>

definition mundo_exemplo :: world where
  "mundo_exemplo =
     exec_all
       [Call_ConfiguracaoApp_getInstance, Call_ConfiguracaoApp_getInstance,
        Call_Logger_getInstance, Call_Logger_getInstance,
        Call_ContadorGlobal_getInstance,
        Call_log 2 ''2025-01-01T10:00:00.000Z'' INFO ''Aplicacao iniciada'',
        Call_log 2 ''2025-01-01T10:00:01.000Z'' WARN ''Configuracao de debug ativada'',
        Call_log 2 ''2025-01-01T10:00:02.000Z'' ERROR ''Erro simulado para teste'']
       initial_world"

definition chamadas_exemplo :: "call list" where
  "chamadas_exemplo =
     [Call_setConfiguracao 0 ''theme'' (Texto ''light''), Call_getConfiguracao 0 ''theme'',
      Call_getLogs 2, Call_array_mutate 4 [], Call_limparLogs 2, Call_exportarLogs 2,
      Call_incrementar 3, Call_decrementar 3, Call_resetar 3, Call_Logger_getInstance]"

section \<open>Cohesion: \<open>Calculadora\<close> and \<open>ContaBancaria\<close>\<close>

definition dividir :: "number \<Rightarrow> number \<Rightarrow> error + number" where
  "dividir a b = (if js_eq b (Fin 0) then Inl DivisaoPorZero else Inr (js_div a b))"

text \<open>
  Accounts are objects of a store, since \<open>transferir\<close> changes two of them and they may
  be the same one. A method returns the store as it is when the method returns or throws.
  \<open>registrarOperacao\<close> writes to the console only and is left out.
\<close>

record ContaBancaria =
  saldo :: number
  numeroConta :: string
  titular :: string

type_synonym contas = "ref \<Rightarrow> ContaBancaria option"

text \<open>The constructor; its third parameter has the default value \<open>0\<close>.\<close>

definition new_ContaBancaria :: "string \<Rightarrow> string \<Rightarrow> number option \<Rightarrow> ContaBancaria" where
  "new_ContaBancaria numero nome saldoInicial =
     \<lparr>saldo = (case saldoInicial of None \<Rightarrow> Fin 0 | Some v \<Rightarrow> v),
      numeroConta = numero, titular = nome\<rparr>"

definition validarValor :: "number \<Rightarrow> bool" where
  "validarValor valor = (js_gt valor (Fin 0) \<and> isFinite valor)"

definition temSaldoSuficiente :: "ContaBancaria \<Rightarrow> number \<Rightarrow> bool" where
  "temSaldoSuficiente this valor = js_ge (saldo this) valor"

definition depositar :: "ref \<Rightarrow> number \<Rightarrow> contas \<Rightarrow> (error + unit) \<times> contas" where
  "depositar this valor s =
     (case s this of
        None \<Rightarrow> (Inl TypeError, s)
      | Some c \<Rightarrow>
          if \<not> validarValor valor then (Inl ValorDeveSerPositivo, s)
          else (Inr (), s(this \<mapsto> c\<lparr>saldo := js_add (saldo c) valor\<rparr>)))"

definition sacar :: "ref \<Rightarrow> number \<Rightarrow> contas \<Rightarrow> (error + unit) \<times> contas" where
  "sacar this valor s =
     (case s this of
        None \<Rightarrow> (Inl TypeError, s)
      | Some c \<Rightarrow>
          if \<not> validarValor valor then (Inl ValorDeveSerPositivo, s)
          else if \<not> temSaldoSuficiente c valor then (Inl SaldoInsuficiente, s)
          else (Inr (), s(this \<mapsto> c\<lparr>saldo := js_sub (saldo c) valor\<rparr>)))"

definition consultarSaldo :: "ref \<Rightarrow> contas \<Rightarrow> error + number" where
  "consultarSaldo this s = (case s this of None \<Rightarrow> Inl TypeError | Some c \<Rightarrow> Inr (saldo c))"

definition transferir :: "ref \<Rightarrow> number \<Rightarrow> ref \<Rightarrow> contas \<Rightarrow> (error + unit) \<times> contas" where
  "transferir this valor contaDestino s =
     (case sacar this valor s of
        (Inl e, s1) \<Rightarrow> (Inl e, s1)
      | (Inr u, s1) \<Rightarrow>
          (case depositar contaDestino valor s1 of
             (Inl e, s2) \<Rightarrow> (Inl e, s2)
           | (Inr u', s2) \<Rightarrow> (Inr (), s2)))"

datatype operacao =
    Depositar ref number
  | Sacar ref number
  | Transferir ref number ref

fun executar :: "operacao \<Rightarrow> contas \<Rightarrow> contas" where
  "executar (Depositar this valor) s = snd (depositar this valor s)"
| "executar (Sacar this valor) s = snd (sacar this valor s)"
| "executar (Transferir this valor contaDestino) s = snd (transferir this valor contaDestino s)"

fun executar_todas :: "operacao list \<Rightarrow> contas \<Rightarrow> contas" where
  "executar_todas [] s = s"
| "executar_todas (x # xs) s = executar_todas xs (executar x s)"

text \<open>The two accounts of the demonstration block, at two references.\<close>

definition contas_exemplo :: contas where
  "contas_exemplo =
     (\<lambda>r. None)(0 \<mapsto> new_ContaBancaria ''12345'' ''Joao Silva'' (Some (Fin 1000)),
       1 \<mapsto> new_ContaBancaria ''67890'' ''Maria Santos'' (Some (Fin 500)))"

text \<open>Two accounts with the balances 1 and \<open>2^53\<close>.\<close>

definition contas_grandes :: contas where
  "contas_grandes =
     (\<lambda>r. None)(0 \<mapsto> new_ContaBancaria ''11111'' ''Ana'' (Some (Fin 1)),
       1 \<mapsto> new_ContaBancaria ''22222'' ''Rui'' (Some (Fin (2 ^ 53))))"

section \<open>Polymorphism: \<open>Animal\<close>\<close>

text \<open>
  The abstract class and its four subclasses: the constructor of the datatype is the class
  of the object, its argument the field \<open>nome\<close>, and the case distinction of
  \<open>emitirSom\<close> is the dynamic dispatch.
\<close>

datatype Animal = Cachorro string | Gato string | Vaca string | Pato string

fun emitirSom :: "Animal \<Rightarrow> string" where
  "emitirSom (Cachorro nome) = nome @ '' faz: Au au au!''"
| "emitirSom (Gato nome) = nome @ '' faz: Miau miau!''"
| "emitirSom (Vaca nome) = nome @ '' faz: Muuuu!''"
| "emitirSom (Pato nome) = nome @ '' faz: Quack quack!''"

definition animais :: "Animal list" where
  "animais = [Cachorro ''Rex'', Gato ''Mimi'', Vaca ''Mimosa'', Pato ''Donald'']"

text \<open>
  \<open>animais.forEach(animal => console.log(animal.emitirSom()))\<close>: the lines written, in
  the order they are written.
\<close>

fun forEach_emitirSom :: "Animal list \<Rightarrow> string list \<Rightarrow> string list" where
  "forEach_emitirSom [] console = console"
| "forEach_emitirSom (animal # rest) console =
     forEach_emitirSom rest (console @ [emitirSom animal])"

section \<open>Properties of the numbers\<close>

lemma round_half_even_of_int [simp]: "round_half_even (of_int n) = n"
  by (simp add: round_half_even_def)

lemma round_half_even_nonneg: "0 \<le> q \<Longrightarrow> 0 \<le> round_half_even q"
  by (auto simp: round_half_even_def Let_def)

lemma to_double_nonneg:
  assumes "0 \<le> x"
  shows "to_double x = PosInf \<or> (\<exists>r. to_double x = Fin r \<and> 0 \<le> r)"
proof (cases "x = 0")
  case True
  then show ?thesis by (simp add: to_double_def)
next
  case False
  with assms have pos: "0 < x" by simp
  let ?e = "max (binary_exponent \<bar>x\<bar> - 52) (- 1074)"
  have "0 \<le> \<bar>x\<bar> / power_int 2 ?e" by simp
  then have "0 \<le> round_half_even (\<bar>x\<bar> / power_int 2 ?e)" by (rule round_half_even_nonneg)
  then have "0 \<le> (of_int (round_half_even (\<bar>x\<bar> / power_int 2 ?e)) :: rat) * power_int 2 ?e"
    by simp
  then show ?thesis using pos by (simp add: to_double_def Let_def)
qed

lemma to_double_representable:
  assumes "x \<noteq> 0" and "\<bar>x\<bar> / power_int 2 (max (binary_exponent \<bar>x\<bar> - 52) (- 1074)) = of_int m"
    and "\<bar>x\<bar> < 2 ^ 1024"
  shows "to_double x = Fin x"
proof -
  let ?e = "max (binary_exponent \<bar>x\<bar> - 52) (- 1074)"
  have p: "power_int (2::rat) ?e \<noteq> 0" by simp
  have "of_int m * power_int (2::rat) ?e = \<bar>x\<bar>"
    using assms(2) p by (metis nonzero_divide_eq_eq)
  then show ?thesis using assms by (auto simp: to_double_def Let_def)
qed

lemma to_double_int:
  assumes "x \<in> \<int>" and "\<bar>x\<bar> \<le> 2 ^ 53"
  shows "to_double x = Fin x"
proof (cases "x = 0")
  case True
  then show ?thesis by (simp add: to_double_def)
next
  case False
  from assms(1) obtain z where z: "x = of_int z" by (rule Ints_cases)
  define n where "n = \<bar>z\<bar>"
  have n: "\<bar>x\<bar> = of_int n" by (simp add: z n_def)
  have n1: "1 \<le> n" using False z by (simp add: n_def)
  have "(of_int n :: rat) \<le> of_int (2 ^ 53)" using assms(2) n by simp
  then have n53: "n \<le> 2 ^ 53" by (simp only: of_int_le_iff)
  have ex: "binary_exponent \<bar>x\<bar> = bitlen n - 1" using n n1 by (simp add: binary_exponent_def)
  have "\<bar>x\<bar> \<le> 2 ^ 53" by (rule assms(2))
  also have "(2::rat) ^ 53 < 2 ^ 1024" by (rule power_strict_increasing) simp_all
  finally have lt: "\<bar>x\<bar> < 2 ^ 1024" .
  have b1: "1 \<le> bitlen n" using n1 by (simp add: bitlen_ge_iff_power)
  show ?thesis
  proof (cases "n < 2 ^ 53")
    case True
    then have b53: "bitlen n \<le> 53" by (simp add: bitlen_le_iff_power)
    define j where "j = nat (53 - bitlen n)"
    have j: "bitlen n - 1 - 52 = - int j" using b53 by (simp add: j_def)
    have e: "max (binary_exponent \<bar>x\<bar> - 52) (- 1074) = - int j"
      using ex j b1 by simp
    have "\<bar>x\<bar> / power_int 2 (- int j) = of_int (n * 2 ^ j)"
      using n by (simp add: power_int_minus field_simps)
    then have "\<bar>x\<bar> / power_int 2 (max (binary_exponent \<bar>x\<bar> - 52) (- 1074)) = of_int (n * 2 ^ j)"
      by (simp only: e)
    with False show ?thesis using lt by (rule to_double_representable)
  next
    case False
    with n53 have eq: "n = 2 ^ 53" by simp
    have "bitlen (1 * 2 ^ 53) = bitlen 1 + int 53" by (rule bitlen_pow2) simp
    moreover have "bitlen 1 = 1" by (simp add: bitlen_alt_def)
    ultimately have "bitlen n = 54" using eq by simp
    then have e: "max (binary_exponent \<bar>x\<bar> - 52) (- 1074) = 1" using ex by simp
    have "\<bar>x\<bar> / power_int 2 1 = of_int (2 ^ 52)" using n eq by simp
    then have "\<bar>x\<bar> / power_int 2 (max (binary_exponent \<bar>x\<bar> - 52) (- 1074)) = of_int (2 ^ 52)"
      by (simp only: e)
    with \<open>x \<noteq> 0\<close> show ?thesis using lt by (rule to_double_representable)
  qed
qed


lemma binary_exponent_bounds:
  assumes "0 < a"
  shows "power_int 2 (binary_exponent a) \<le> a \<and> a < power_int 2 (binary_exponent a + 1)"
proof (cases "1 \<le> a")
  case True
  define n where "n = \<lfloor>a\<rfloor>"
  have n0: "0 < n" using True by (simp add: n_def)
  have b: "2 ^ nat (bitlen n - 1) \<le> n" "n < 2 ^ nat (bitlen n)"
    using bitlen_bounds [OF n0] by simp_all
  have b1: "1 \<le> bitlen n" using n0 by (simp add: bitlen_ge_iff_power)
  have ex: "binary_exponent a = bitlen n - 1" using True by (simp add: binary_exponent_def n_def)
  have "(of_int (2 ^ nat (bitlen n - 1)) :: rat) \<le> of_int n" using b(1) by (simp only: of_int_le_iff)
  also have "of_int n \<le> a" by (simp add: n_def)
  finally have lo: "power_int 2 (bitlen n - 1) \<le> a" using b1 by (simp add: power_int_def)
  have "n + 1 \<le> 2 ^ nat (bitlen n)" using b(2) by simp
  then have "(of_int (n + 1) :: rat) \<le> of_int (2 ^ nat (bitlen n))" by (simp only: of_int_le_iff)
  moreover have "a < of_int (n + 1)" using floor_correct [of a] by (simp add: n_def)
  ultimately have "a < of_int (2 ^ nat (bitlen n))" by simp
  then have hi: "a < power_int 2 (bitlen n - 1 + 1)" using b1 by (simp add: power_int_def)
  show ?thesis using lo hi ex by simp
next
  case False
  then have a1: "a < 1" by simp
  define c where "c = \<lceil>1 / a\<rceil>"
  define n where "n = c - 1"
  have inv: "1 < 1 / a" using assms a1 by simp
  have c2: "2 \<le> c" using inv by (simp add: c_def le_ceiling_iff)
  have n0: "0 < n" using c2 by (simp add: n_def)
  have b: "2 ^ nat (bitlen n - 1) \<le> n" "n < 2 ^ nat (bitlen n)"
    using bitlen_bounds [OF n0] by simp_all
  have b1: "1 \<le> bitlen n" using n0 by (simp add: bitlen_ge_iff_power)
  have ex: "binary_exponent a = - bitlen n" using False by (simp add: binary_exponent_def n_def c_def)
  have "1 / a \<le> of_int c" by (simp add: c_def)
  also have "(of_int c :: rat) \<le> of_int (2 ^ nat (bitlen n))"
    using b(2) unfolding n_def by (simp only: of_int_le_iff)
  finally have "1 / a \<le> 2 ^ nat (bitlen n)" by simp
  then have "1 \<le> a * 2 ^ nat (bitlen n)" using assms by (simp add: field_simps)
  then have "1 / 2 ^ nat (bitlen n) \<le> a" by (simp add: field_simps)
  then have lo: "power_int 2 (- bitlen n) \<le> a"
    using b1 by (simp add: power_int_def field_simps)
  have "(of_int (2 ^ nat (bitlen n - 1)) :: rat) \<le> of_int n" using b(1) by (simp only: of_int_le_iff)
  also have "(of_int n :: rat) < 1 / a" unfolding n_def c_def by (simp add: ceiling_correct)
  finally have "2 ^ nat (bitlen n - 1) < 1 / a" by simp
  then have "a * 2 ^ nat (bitlen n - 1) < 1" using assms by (simp add: field_simps)
  then have "a < 1 / 2 ^ nat (bitlen n - 1)" by (simp add: field_simps)
  moreover have "power_int (2::rat) (- bitlen n + 1) = 1 / 2 ^ nat (bitlen n - 1)"
  proof (cases "bitlen n = 1")
    case True
    then show ?thesis by simp
  next
    case False
    with b1 have "- bitlen n + 1 < 0" by simp
    moreover have "nat (- (- bitlen n + 1)) = nat (bitlen n - 1)" by simp
    ultimately show ?thesis by (simp add: power_int_def field_simps)
  qed
  ultimately have hi: "a < power_int 2 (- bitlen n + 1)" by simp
  show ?thesis using lo hi ex by simp
qed

lemma binary_exponent_eqI:
  assumes "power_int 2 k \<le> a" and "a < power_int 2 (k + 1)"
  shows "binary_exponent a = k"
proof -
  have pos: "0 < a"
  proof -
    have "(0::rat) < power_int 2 k" by simp
    then show ?thesis using assms(1) by (rule less_le_trans)
  qed
  have b: "power_int 2 (binary_exponent a) \<le> a" "a < power_int 2 (binary_exponent a + 1)"
    using binary_exponent_bounds [OF pos] by simp_all
  have "power_int (2::rat) k < power_int 2 (binary_exponent a + 1)" using assms(1) b(2) by simp
  then have 1: "k < binary_exponent a + 1"
    using power_int_increasing [of "binary_exponent a + 1" k "2::rat"] by (cases "k < binary_exponent a + 1") simp_all
  have "power_int (2::rat) (binary_exponent a) < power_int 2 (k + 1)" using assms(2) b(1) by simp
  then have 2: "binary_exponent a < k + 1"
    using power_int_increasing [of "k + 1" "binary_exponent a" "2::rat"] by (cases "binary_exponent a < k + 1") simp_all
  from 1 2 show ?thesis by simp
qed

lemma round_half_even_down:
  "of_int f \<le> q \<Longrightarrow> q < of_int f + 1 / 2 \<Longrightarrow> round_half_even q = f"
proof -
  assume a: "of_int f \<le> q" "q < of_int f + 1 / 2"
  then have "\<lfloor>q\<rfloor> = f" by (intro floor_unique) simp_all
  then show ?thesis using a by (simp add: round_half_even_def Let_def)
qed

lemma round_half_even_up:
  "of_int f + 1 / 2 < q \<Longrightarrow> q < of_int f + 1 \<Longrightarrow> round_half_even q = f + 1"
proof -
  assume a: "of_int f + 1 / 2 < q" "q < of_int f + 1"
  then have "\<lfloor>q\<rfloor> = f" by (intro floor_unique) simp_all
  then show ?thesis using a by (simp add: round_half_even_def Let_def)
qed

lemma round_half_even_tie:
  "q = of_int f + 1 / 2 \<Longrightarrow> round_half_even q = (if even f then f else f + 1)"
proof -
  assume a: "q = of_int f + 1 / 2"
  then have "\<lfloor>q\<rfloor> = f" by (intro floor_unique) simp_all
  then show ?thesis using a by (simp add: round_half_even_def Let_def)
qed

lemma to_double_eqI:
  assumes "x \<noteq> 0" and "power_int 2 k \<le> \<bar>x\<bar>" and "\<bar>x\<bar> < power_int 2 (k + 1)"
    and "e = max (k - 52) (- 1074)" and "round_half_even (\<bar>x\<bar> / power_int 2 e) = m"
    and "r = of_int m * power_int 2 e"
  shows "to_double x =
    (if 2 ^ 1024 \<le> r then (if 0 < x then PosInf else NegInf) else Fin (if 0 < x then r else - r))"
proof -
  have ex: "binary_exponent \<bar>x\<bar> = k" using assms(2,3) by (rule binary_exponent_eqI)
  have r: "of_int (round_half_even (\<bar>x\<bar> / power_int 2 (max (k - 52) (- 1074))))
      * power_int 2 (max (k - 52) (- 1074)) = r"
    using assms(4,5,6) by simp
  show ?thesis unfolding to_double_def Let_def ex r using assms(1) by simp
qed

text \<open>
  Integers up to \<open>2^53\<close> add and subtract without rounding; \<open>2^53 + 1\<close> is the first
  integer that is not a double, and is rounded to \<open>2^53\<close>.
\<close>

lemma js_add_int:
  "x \<in> \<int> \<Longrightarrow> y \<in> \<int> \<Longrightarrow> \<bar>x + y\<bar> \<le> 2 ^ 53 \<Longrightarrow> js_add (Fin x) (Fin y) = Fin (x + y)"
  by (simp add: to_double_int)

lemma to_double_2_53_plus_1: "to_double 9007199254740993 = Fin 9007199254740992"
proof -
  have m: "round_half_even (\<bar>2 ^ 53 + 1\<bar> / power_int 2 1) = 2 ^ 52"
    using round_half_even_tie [of "\<bar>2 ^ 53 + 1\<bar> / power_int 2 1" "2 ^ 52"] by simp
  show ?thesis
    using to_double_eqI [of "2 ^ 53 + 1" 53 1 "2 ^ 52" "2 ^ 53", OF _ _ _ _ m] by simp
qed

lemma to_double_one_third: "to_double (1 / 3) = Fin (6004799503160661 / 18014398509481984)"
proof -
  have m: "round_half_even (\<bar>1 / 3\<bar> / power_int 2 (- 54)) = 6004799503160661"
    using round_half_even_down [of 6004799503160661 "\<bar>1 / 3\<bar> / power_int 2 (- 54)"] by simp
  show ?thesis
    using to_double_eqI [of "1 / 3" "- 2" "- 54" 6004799503160661
        "6004799503160661 / 18014398509481984", OF _ _ _ _ m] by simp
qed

lemma to_double_overflow: "to_double (2 ^ 1023 / (1 / 2)) = PosInf"
proof -
  have m: "round_half_even (\<bar>2 ^ 1023 / (1 / 2)\<bar> / power_int 2 972) = 2 ^ 52"
    using round_half_even_down [of "2 ^ 52" "\<bar>2 ^ 1023 / (1 / 2)\<bar> / power_int 2 972"] by simp
  show ?thesis
    using to_double_eqI [of "2 ^ 1023 / (1 / 2)" 1024 972 "2 ^ 52" "2 ^ 1024", OF _ _ _ _ m]
    by simp
qed

lemma to_double_underflow: "to_double (1 / 2 ^ 1074 / 2) = Fin 0"
proof -
  have m: "round_half_even (\<bar>1 / 2 ^ 1074 / 2\<bar> / power_int 2 (- 1074)) = 0"
    using round_half_even_tie [of "\<bar>1 / 2 ^ 1074 / 2\<bar> / power_int 2 (- 1074)" 0] by simp
  show ?thesis
    using to_double_eqI [of "1 / 2 ^ 1074 / 2" "- 1075" "- 1074" 0 0, OF _ _ _ _ m]
    by simp
qed

lemma js_ge_zero_iff: "js_ge x (Fin 0) \<longleftrightarrow> x = PosInf \<or> (\<exists>r. x = Fin r \<and> 0 \<le> r)"
  by (cases x) (auto simp: js_ge_def)

lemma js_ge_Fin_iff: "js_ge x (Fin v) \<longleftrightarrow> x = PosInf \<or> (\<exists>r. x = Fin r \<and> v \<le> r)"
  by (cases x) (auto simp: js_ge_def)

lemma js_ge_Fin_Fin: "js_ge (Fin a) (Fin b) \<longleftrightarrow> b \<le> a"
  by (auto simp: js_ge_def)

lemma js_ge_to_double: "0 \<le> x \<Longrightarrow> js_ge (to_double x) (Fin 0)"
  using to_double_nonneg [of x] by (auto simp: js_ge_zero_iff)

section \<open>Properties of \<open>ContadorUsuarios\<close>\<close>

lemma validarIdade_iff:
  "validarIdade idade \<longleftrightarrow> (\<exists>r. idade = Fin r \<and> 18 \<le> r \<and> r \<le> 120)"
  by (cases idade) (auto simp: validarIdade_def IDADE_MINIMA_def IDADE_MAXIMA_def js_ge_def)

text \<open>
  C1. An age outside the inclusive range from 18 to 120 (every number that is not a finite
  value of the range, \<open>NaN\<close> and the infinities included) makes the constructor of
  \<open>ContadorUsuarios\<close> throw its error about the age bounds and leaves both static
  counters as they were; an age inside the range makes it return an instance and a
  class-level state whose \<open>totalUsuarios\<close> is the old one incremented by \<open>++\<close>: exactly
  one more than before as long as the counter is an integer below \<open>2^53\<close>.
\<close>

theorem C1_constructor_valida_idade:
  "((\<exists>r. idade = Fin r \<and> 18 \<le> r \<and> r \<le> 120) \<longrightarrow>
      (\<exists>u s'. new_ContadorUsuarios nome idade s = (Inr u, s')
         \<and> getTotalUsuarios s' = js_add (getTotalUsuarios s) (Fin 1)
         \<and> (\<forall>n. getTotalUsuarios s = Fin (of_nat n) \<and> n < 2 ^ 53 \<longrightarrow>
               getTotalUsuarios s' = Fin (of_nat n + 1))))
   \<and> (\<not> (\<exists>r. idade = Fin r \<and> 18 \<le> r \<and> r \<le> 120) \<longrightarrow>
        new_ContadorUsuarios nome idade s = (Inl IdadeForaDosLimites, s))"
proof -
  have ex: "\<And>n::nat. n < 2 ^ 53 \<Longrightarrow> to_double (of_nat n + 1) = Fin (of_nat n + 1)"
  proof -
    fix n :: nat
    assume "n < 2 ^ 53"
    then have "n + 1 \<le> 2 ^ 53" by simp
    then have "(of_nat (n + 1) :: rat) \<le> of_nat (2 ^ 53)" by (simp only: of_nat_le_iff)
    then have "\<bar>of_nat n + 1 :: rat\<bar> \<le> 2 ^ 53" by simp
    then show "to_double (of_nat n + 1) = Fin (of_nat n + 1)"
      by (intro to_double_int) simp_all
  qed
  show ?thesis
    unfolding validarIdade_iff [symmetric]
    by (auto simp: new_ContadorUsuarios_def getTotalUsuarios_def Let_def ex)
qed

theorem C1_constructor_valida_idade_witness:
  "(\<exists>r. Fin 25 = Fin r \<and> 18 \<le> r \<and> r \<le> 120)
   \<and> getTotalUsuarios ContadorUsuarios_carregada = Fin (of_nat 0) \<and> (0::nat) < 2 ^ 53
   \<and> (\<exists>u s'. new_ContadorUsuarios ''Joao'' (Fin 25) ContadorUsuarios_carregada = (Inr u, s')
         \<and> getTotalUsuarios s' = Fin 1)
   \<and> \<not> (\<exists>r. Fin 15 = Fin r \<and> 18 \<le> r \<and> r \<le> 120)
   \<and> \<not> (\<exists>r. NaN = Fin r \<and> 18 \<le> r \<and> r \<le> 120)
   \<and> new_ContadorUsuarios ''Crianca'' (Fin 15) ContadorUsuarios_carregada
       = (Inl IdadeForaDosLimites, ContadorUsuarios_carregada)
   \<and> new_ContadorUsuarios ''Ninguem'' NaN ContadorUsuarios_carregada
       = (Inl IdadeForaDosLimites, ContadorUsuarios_carregada)"
proof -
  have t: "getTotalUsuarios ContadorUsuarios_carregada = Fin (of_nat 0)"
    by (simp add: getTotalUsuarios_def ContadorUsuarios_carregada_def)
  show ?thesis
    using t C1_constructor_valida_idade [of "Fin 25" "''Joao''" ContadorUsuarios_carregada]
      C1_constructor_valida_idade [of "Fin 15" "''Crianca''" ContadorUsuarios_carregada]
      C1_constructor_valida_idade [of NaN "''Ninguem''" ContadorUsuarios_carregada]
    by auto
qed

text \<open>
  After \<open>n\<close> constructions from the loaded class, \<open>n\<close> below \<open>2^53\<close>, the counters are
  \<open>n\<close> and \<open>n + 1\<close>; the construction number \<open>2^53\<close> leaves both at \<open>2^53\<close>, and from
  there a construction succeeds and leaves \<open>totalUsuarios\<close> as it is, since \<open>2^53 + 1\<close>
  is rounded to \<open>2^53\<close>.
\<close>

lemma construir_n_carregada:
  "n < 2 ^ 53 \<Longrightarrow>
     construir_n n ContadorUsuarios_carregada
       = \<lparr>totalUsuarios = Fin (of_nat n), proximoId = Fin (of_nat n + 1)\<rparr>"
proof (induction n)
  case 0
  show ?case by (simp add: ContadorUsuarios_carregada_def)
next
  case (Suc n)
  then have ih: "construir_n n ContadorUsuarios_carregada
       = \<lparr>totalUsuarios = Fin (of_nat n), proximoId = Fin (of_nat n + 1)\<rparr>" by simp
  from Suc.prems have "n + 2 \<le> 2 ^ 53" by simp
  then have "(of_nat (n + 2) :: rat) \<le> of_nat (2 ^ 53)" by (simp only: of_nat_le_iff)
  then have b: "(of_nat n + 2 :: rat) \<le> 2 ^ 53" by simp
  have a1: "to_double (of_nat n + 1) = Fin (of_nat n + 1)"
    using b by (intro to_double_int) simp_all
  have a2: "to_double (of_nat n + 1 + 1) = Fin (of_nat n + 1 + 1)"
    using b by (intro to_double_int) simp_all
  have v: "validarIdade IDADE_MINIMA" by (simp add: validarIdade_iff IDADE_MINIMA_def)
  have "snd (new_ContadorUsuarios ''usuario'' IDADE_MINIMA
          \<lparr>totalUsuarios = Fin (of_nat n), proximoId = Fin (of_nat n + 1)\<rparr>)
      = \<lparr>totalUsuarios = to_double (of_nat n + 1), proximoId = to_double (of_nat n + 1 + 1)\<rparr>"
    by (simp add: new_ContadorUsuarios_def v Let_def)
  then show ?case
    unfolding construir_n.simps ih a1 a2 by simp
qed

lemma construir_n_2_53:
  "construir_n (2 ^ 53) ContadorUsuarios_carregada
     = \<lparr>totalUsuarios = Fin (2 ^ 53), proximoId = Fin (2 ^ 53)\<rparr>"
proof -
  have s: "(2::nat) ^ 53 = Suc (2 ^ 53 - 1)" by simp
  have "(2::nat) ^ 53 - 1 < 2 ^ 53" by simp
  then have p: "construir_n (2 ^ 53 - 1) ContadorUsuarios_carregada
       = \<lparr>totalUsuarios = Fin (of_nat (2 ^ 53 - 1)), proximoId = Fin (of_nat (2 ^ 53 - 1) + 1)\<rparr>"
    by (rule construir_n_carregada)
  have v: "validarIdade IDADE_MINIMA" by (simp add: validarIdade_iff IDADE_MINIMA_def)
  have "construir_n (Suc (2 ^ 53 - 1)) ContadorUsuarios_carregada
      = \<lparr>totalUsuarios = Fin (2 ^ 53), proximoId = Fin (2 ^ 53)\<rparr>"
    unfolding construir_n.simps p
    by (simp add: new_ContadorUsuarios_def v Let_def to_double_int to_double_2_53_plus_1)
  then show ?thesis by (simp only: s [symmetric])
qed

theorem C1_counterexample:
  "construir_n (2 ^ 53) ContadorUsuarios_carregada
     = \<lparr>totalUsuarios = Fin (2 ^ 53), proximoId = Fin (2 ^ 53)\<rparr>
   \<and> (18::rat) \<le> 25 \<and> (25::rat) \<le> 120
   \<and> new_ContadorUsuarios ''Joao'' (Fin 25)
         \<lparr>totalUsuarios = Fin (2 ^ 53), proximoId = Fin (2 ^ 53)\<rparr>
       = (Inr \<lparr>usuario_id = Fin (2 ^ 53), usuario_nome = ''Joao'', usuario_idade = Fin 25\<rparr>,
          \<lparr>totalUsuarios = Fin (2 ^ 53), proximoId = Fin (2 ^ 53)\<rparr>)
   \<and> getTotalUsuarios (snd (new_ContadorUsuarios ''Joao'' (Fin 25)
         \<lparr>totalUsuarios = Fin (2 ^ 53), proximoId = Fin (2 ^ 53)\<rparr>)) = Fin (2 ^ 53)
   \<and> Fin (2 ^ 53) \<noteq> Fin (2 ^ 53 + 1)"
proof -
  have v: "validarIdade (Fin 25)" by (simp add: validarIdade_iff)
  show ?thesis
    using construir_n_2_53
    by (simp add: new_ContadorUsuarios_def v Let_def getTotalUsuarios_def to_double_2_53_plus_1)
qed

lemma primeiro_construido:
  "construidos (fst (construir_todos ts s)) = u # us \<Longrightarrow> usuario_id u = proximoId s"
proof (induction ts arbitrary: s)
  case Nil
  then show ?case by simp
next
  case (Cons t ts)
  obtain nome idade where t: "t = (nome, idade)" by (cases t)
  show ?case
  proof (cases "validarIdade idade")
    case True
    with Cons.prems t show ?thesis
      by (auto simp: new_ContadorUsuarios_def Let_def split: prod.splits)
  next
    case False
    with Cons.prems t have "construidos (fst (construir_todos ts s)) = u # us"
      by (simp add: new_ContadorUsuarios_def split: prod.splits)
    then show ?thesis by (rule Cons.IH)
  qed
qed

text \<open>
  C2. Whatever the two static counters hold, \<open>resetarContador\<close> leaves
  \<open>totalUsuarios\<close> at zero and \<open>proximoId\<close> at its starting value 1; and in every run of
  construction attempts that follows the reset, the first instance built (the attempts
  before it threw) has the identifier 1.
\<close>

theorem C2_resetarContador:
  "getTotalUsuarios (resetarContador s) = Fin 0
   \<and> proximoId (resetarContador s) = Fin 1
   \<and> (construidos (fst (construir_todos tentativas (resetarContador s))) = u # us
        \<longrightarrow> getId u = Fin 1)"
  using primeiro_construido [of tentativas "resetarContador s" u us]
  by (simp add: getTotalUsuarios_def getId_def resetarContador_def)

theorem C2_resetarContador_witness:
  "getTotalUsuarios (resetarContador \<lparr>totalUsuarios = Fin 3, proximoId = Fin 4\<rparr>) = Fin 0
   \<and> proximoId (resetarContador \<lparr>totalUsuarios = Fin 3, proximoId = Fin 4\<rparr>) = Fin 1
   \<and> construidos (fst (construir_todos [(''Crianca'', Fin 15), (''Ana'', Fin 40)]
         (resetarContador \<lparr>totalUsuarios = Fin 3, proximoId = Fin 4\<rparr>)))
       = \<lparr>usuario_id = Fin 1, usuario_nome = ''Ana'', usuario_idade = Fin 40\<rparr> # []
   \<and> getId \<lparr>usuario_id = Fin 1, usuario_nome = ''Ana'', usuario_idade = Fin 40\<rparr> = Fin 1"
  using C2_resetarContador [of "\<lparr>totalUsuarios = Fin 3, proximoId = Fin 4\<rparr>"
      "[(''Crianca'', Fin 15), (''Ana'', Fin 40)]"
      "\<lparr>usuario_id = Fin 1, usuario_nome = ''Ana'', usuario_idade = Fin 40\<rparr>" "[]"]
  by (simp add: new_ContadorUsuarios_def validarIdade_def IDADE_MINIMA_def IDADE_MAXIMA_def
      js_ge_def resetarContador_def Let_def)

section \<open>Properties of \<open>Pessoa\<close>\<close>

lemma isInteger_iff: "isInteger v \<longleftrightarrow> (\<exists>r. v = Fin r \<and> r \<in> \<int>)"
  by (cases v) (auto simp: Ints_def)

text \<open>
  C4. A value that is negative or not an integer (\<open>NaN\<close> and the infinities are not
  integers) makes the setter of \<open>idade\<close> throw its error about the age and return the
  object it was given: the age read afterwards is the age held before.
\<close>

theorem C4_setter_rejeita:
  "v = NaN \<or> v = PosInf \<or> v = NegInf \<or> (\<exists>r. v = Fin r \<and> (r < 0 \<or> r \<notin> \<int>)) \<Longrightarrow>
     set_idade v p = (Inl IdadeInvalida, p) \<and> get_idade (snd (set_idade v p)) = get_idade p"
  by (auto simp: set_idade_def isInteger_iff)

theorem C4_setter_rejeita_witness:
  "(Fin (-5) = NaN \<or> Fin (-5) = PosInf \<or> Fin (-5) = NegInf
      \<or> (\<exists>r. Fin (-5) = Fin r \<and> (r < 0 \<or> r \<notin> \<int>)))
   \<and> set_idade (Fin (-5)) \<lparr>pessoa_nome = [0x52], pessoa_idade = Fin 31\<rparr>
       = (Inl IdadeInvalida, \<lparr>pessoa_nome = [0x52], pessoa_idade = Fin 31\<rparr>)
   \<and> get_idade (snd (set_idade (Fin (-5)) \<lparr>pessoa_nome = [0x52], pessoa_idade = Fin 31\<rparr>)) = Fin 31"
  using C4_setter_rejeita [of "Fin (-5)" "\<lparr>pessoa_nome = [0x52], pessoa_idade = Fin 31\<rparr>"]
  by (simp add: get_idade_def)

lemma trim_decomp:
  "\<exists>l r. s = l @ trim s @ r \<and> (\<forall>c \<in> set l. is_white_space c) \<and> (\<forall>c \<in> set r. is_white_space c)"
proof -
  let ?d = "dropWhile is_white_space s"
  have 1: "s = takeWhile is_white_space s @ ?d" by simp
  have "rev ?d = takeWhile is_white_space (rev ?d) @ dropWhile is_white_space (rev ?d)" by simp
  then have "?d = rev (dropWhile is_white_space (rev ?d)) @ rev (takeWhile is_white_space (rev ?d))"
    by (metis rev_append rev_rev_ident)
  then have 2: "?d = trim s @ rev (takeWhile is_white_space (rev ?d))" by (simp add: trim_def)
  have 3: "\<forall>c \<in> set (takeWhile is_white_space s). is_white_space c" by (auto dest: set_takeWhileD)
  have 4: "\<forall>c \<in> set (rev (takeWhile is_white_space (rev ?d))). is_white_space c" by (auto dest: set_takeWhileD)
  from 1 2 have "s = takeWhile is_white_space s @ trim s @ rev (takeWhile is_white_space (rev ?d))" by metis
  with 3 4 show ?thesis by blast
qed

lemma trim_ends:
  "trim s \<noteq> [] \<Longrightarrow> \<not> is_white_space (hd (trim s)) \<and> \<not> is_white_space (last (trim s))"
proof -
  assume ne: "trim s \<noteq> []"
  let ?d = "dropWhile is_white_space s"
  let ?e = "dropWhile is_white_space (rev ?d)"
  from ne have e: "?e \<noteq> []" by (simp add: trim_def)
  then have "\<not> is_white_space (hd ?e)" by (rule hd_dropWhile)
  then have l: "\<not> is_white_space (last (trim s))" using e by (simp add: trim_def last_rev)
  from e have dne: "?d \<noteq> []" by (metis dropWhile.simps(1) rev_is_Nil_conv)
  then have hd: "\<not> is_white_space (hd ?d)" by (rule hd_dropWhile)
  have "?d = trim s @ rev (takeWhile is_white_space (rev ?d))"
    by (metis trim_def rev_append rev_rev_ident takeWhile_dropWhile_id)
  with ne have "hd ?d = hd (trim s)" by (metis hd_append2)
  with hd l show ?thesis by simp
qed

lemma new_Pessoa_eq:
  "new_Pessoa nome idade =
     (if \<not> isInteger idade \<or> js_lt idade (Fin 0) then Inl IdadeInvalida
      else Inr \<lparr>pessoa_nome = trim nome, pessoa_idade = idade\<rparr>)"
  by (simp add: new_Pessoa_def set_idade_def)

text \<open>
  C6. The name read from a \<open>Pessoa\<close> that the constructor returned is the trimmed
  constructor argument, and the name read after an assignment through the setter is the
  trimmed assigned string. The trimmed string is the given one without a prefix and a
  suffix made of white space only, and it neither starts nor ends with white space.
\<close>

theorem C6_nome_aparado:
  "(new_Pessoa nome idade = Inr p \<longrightarrow> get_nome p = trim nome)
   \<and> get_nome (set_nome valor p') = trim valor
   \<and> (\<exists>l r. nome = l @ trim nome @ r
         \<and> (\<forall>c \<in> set l. is_white_space c) \<and> (\<forall>c \<in> set r. is_white_space c))
   \<and> (trim nome \<noteq> [] \<longrightarrow>
         \<not> is_white_space (hd (trim nome)) \<and> \<not> is_white_space (last (trim nome)))"
  using trim_decomp [of nome] trim_ends [of nome]
  by (auto simp: new_Pessoa_eq get_nome_def set_nome_def split: if_splits)

theorem C6_nome_aparado_witness:
  "new_Pessoa [0x20, 0x20, 0x52, 0x65, 0x6E, 0x61, 0x6E, 0x20, 0x20] (Fin 30)
     = Inr \<lparr>pessoa_nome = [0x52, 0x65, 0x6E, 0x61, 0x6E], pessoa_idade = Fin 30\<rparr>
   \<and> get_nome \<lparr>pessoa_nome = [0x52, 0x65, 0x6E, 0x61, 0x6E], pessoa_idade = Fin 30\<rparr>
       = trim [0x20, 0x20, 0x52, 0x65, 0x6E, 0x61, 0x6E, 0x20, 0x20]
   \<and> trim [0x20, 0x20, 0x52, 0x65, 0x6E, 0x61, 0x6E, 0x20, 0x20] = [0x52, 0x65, 0x6E, 0x61, 0x6E]
   \<and> trim [0x20, 0x20, 0x52, 0x65, 0x6E, 0x61, 0x6E, 0x20, 0x20] \<noteq> []
   \<and> \<not> is_white_space (hd (trim [0x20, 0x20, 0x52, 0x65, 0x6E, 0x61, 0x6E, 0x20, 0x20]))
   \<and> \<not> is_white_space (last (trim [0x20, 0x20, 0x52, 0x65, 0x6E, 0x61, 0x6E, 0x20, 0x20]))"
  using C6_nome_aparado [of "[0x20, 0x20, 0x52, 0x65, 0x6E, 0x61, 0x6E, 0x20, 0x20]" "Fin 30"
      "\<lparr>pessoa_nome = [0x52, 0x65, 0x6E, 0x61, 0x6E], pessoa_idade = Fin 30\<rparr>"]
  by (simp add: new_Pessoa_eq trim_def is_white_space_def)

section \<open>Properties of the singletons\<close>

lemmas singleton_defs =
  ConfiguracaoApp_getInstance_def new_ConfiguracaoApp_def getConfiguracao_def
  setConfiguracao_def listarConfiguracoes_def Logger_getInstance_def new_Logger_def
  Logger_log_def logs_de_def getLogs_def limparLogs_def exportarLogs_def
  ContadorGlobal_getInstance_def new_ContadorGlobal_def incrementar_def decrementar_def
  getValor_def resetar_def array_mutate_def alloc_def

lemma exec_instancias:
  "(ConfiguracaoApp_instancia w = Some r \<longrightarrow> ConfiguracaoApp_instancia (exec c w) = Some r)
   \<and> (Logger_instancia w = Some r \<longrightarrow> Logger_instancia (exec c w) = Some r)
   \<and> (ContadorGlobal_instancia w = Some r \<longrightarrow> ContadorGlobal_instancia (exec c w) = Some r)"
  by (cases c) (simp_all add: singleton_defs Let_def split: option.split obj.split sum.split prod.split)

lemma exec_all_instancias:
  "(ConfiguracaoApp_instancia w = Some r \<longrightarrow> ConfiguracaoApp_instancia (exec_all cs w) = Some r)
   \<and> (Logger_instancia w = Some r \<longrightarrow> Logger_instancia (exec_all cs w) = Some r)
   \<and> (ContadorGlobal_instancia w = Some r \<longrightarrow> ContadorGlobal_instancia (exec_all cs w) = Some r)"
proof (induction cs arbitrary: w)
  case Nil
  show ?case by simp
next
  case (Cons c cs)
  show ?case using exec_instancias [of w r c] Cons.IH [of "exec c w"] by simp
qed

lemma ConfiguracaoApp_getInstance_cached:
  "ConfiguracaoApp_instancia (snd (ConfiguracaoApp_getInstance w)) = Some (fst (ConfiguracaoApp_getInstance w))"
  by (simp add: singleton_defs split: option.split)

lemma Logger_getInstance_cached:
  "Logger_instancia (snd (Logger_getInstance w)) = Some (fst (Logger_getInstance w))"
  by (simp add: singleton_defs split: option.split)

lemma ContadorGlobal_getInstance_cached:
  "ContadorGlobal_instancia (snd (ContadorGlobal_getInstance w)) = Some (fst (ContadorGlobal_getInstance w))"
  by (simp add: singleton_defs split: option.split)

text \<open>
  C3. For each of \<open>ConfiguracaoApp\<close>, \<open>Logger\<close> and \<open>ContadorGlobal\<close>: when the
  classes are loaded no instance is cached; a call of \<open>getInstance\<close> that finds none
  creates the object at a new reference and caches it; two calls of \<open>getInstance\<close>, with
  any calls of the public methods of the three classes between them, return the same
  reference; and once a reference is cached, \<open>getInstance\<close> returns it without changing
  anything and no sequence of calls takes the class back to the state without instance.
\<close>

theorem C3_singletons:
  "ConfiguracaoApp_instancia initial_world = None
   \<and> Logger_instancia initial_world = None
   \<and> ContadorGlobal_instancia initial_world = None
   \<and> fst (ConfiguracaoApp_getInstance (exec_all cs (snd (ConfiguracaoApp_getInstance w))))
       = fst (ConfiguracaoApp_getInstance w)
   \<and> fst (Logger_getInstance (exec_all cs (snd (Logger_getInstance w))))
       = fst (Logger_getInstance w)
   \<and> fst (ContadorGlobal_getInstance (exec_all cs (snd (ContadorGlobal_getInstance w))))
       = fst (ContadorGlobal_getInstance w)
   \<and> (ConfiguracaoApp_instancia w = None \<longrightarrow>
        (\<exists>w'. ConfiguracaoApp_getInstance w = (next_ref w, w')
           \<and> heap w' (next_ref w) = Some (ConfiguracaoApp_obj (carregarConfiguracoesPadrao []))
           \<and> ConfiguracaoApp_instancia w' = Some (next_ref w)))
   \<and> (Logger_instancia w = None \<longrightarrow>
        (\<exists>w'. Logger_getInstance w = (next_ref w + 1, w')
           \<and> heap w' (next_ref w + 1) = Some (Logger_obj (next_ref w))
           \<and> heap w' (next_ref w) = Some (Array_obj [])
           \<and> Logger_instancia w' = Some (next_ref w + 1)))
   \<and> (ContadorGlobal_instancia w = None \<longrightarrow>
        (\<exists>w'. ContadorGlobal_getInstance w = (next_ref w, w')
           \<and> heap w' (next_ref w) = Some (ContadorGlobal_obj (Fin 0))
           \<and> ContadorGlobal_instancia w' = Some (next_ref w)))
   \<and> (ConfiguracaoApp_instancia w = Some r \<longrightarrow>
        ConfiguracaoApp_getInstance w = (r, w)
        \<and> ConfiguracaoApp_instancia (exec_all cs w) = Some r)
   \<and> (Logger_instancia w = Some r \<longrightarrow>
        Logger_getInstance w = (r, w) \<and> Logger_instancia (exec_all cs w) = Some r)
   \<and> (ContadorGlobal_instancia w = Some r \<longrightarrow>
        ContadorGlobal_getInstance w = (r, w)
        \<and> ContadorGlobal_instancia (exec_all cs w) = Some r)"
proof -
  have a: "fst (ConfiguracaoApp_getInstance (exec_all cs (snd (ConfiguracaoApp_getInstance w))))
       = fst (ConfiguracaoApp_getInstance w)"
    using exec_all_instancias [of "snd (ConfiguracaoApp_getInstance w)"
        "fst (ConfiguracaoApp_getInstance w)" cs] ConfiguracaoApp_getInstance_cached [of w]
    by (simp add: ConfiguracaoApp_getInstance_def [of "exec_all cs (snd (ConfiguracaoApp_getInstance w))"])
  have b: "fst (Logger_getInstance (exec_all cs (snd (Logger_getInstance w))))
       = fst (Logger_getInstance w)"
    using exec_all_instancias [of "snd (Logger_getInstance w)"
        "fst (Logger_getInstance w)" cs] Logger_getInstance_cached [of w]
    by (simp add: Logger_getInstance_def [of "exec_all cs (snd (Logger_getInstance w))"])
  have c: "fst (ContadorGlobal_getInstance (exec_all cs (snd (ContadorGlobal_getInstance w))))
       = fst (ContadorGlobal_getInstance w)"
    using exec_all_instancias [of "snd (ContadorGlobal_getInstance w)"
        "fst (ContadorGlobal_getInstance w)" cs] ContadorGlobal_getInstance_cached [of w]
    by (simp add: ContadorGlobal_getInstance_def [of "exec_all cs (snd (ContadorGlobal_getInstance w))"])
  have d: "ConfiguracaoApp_instancia w = Some r \<longrightarrow> ConfiguracaoApp_getInstance w = (r, w)"
    "Logger_instancia w = Some r \<longrightarrow> Logger_getInstance w = (r, w)"
    "ContadorGlobal_instancia w = Some r \<longrightarrow> ContadorGlobal_getInstance w = (r, w)"
    by (simp_all add: ConfiguracaoApp_getInstance_def Logger_getInstance_def ContadorGlobal_getInstance_def)
  have e: "ConfiguracaoApp_instancia w = None \<longrightarrow>
        (\<exists>w'. ConfiguracaoApp_getInstance w = (next_ref w, w')
           \<and> heap w' (next_ref w) = Some (ConfiguracaoApp_obj (carregarConfiguracoesPadrao []))
           \<and> ConfiguracaoApp_instancia w' = Some (next_ref w))"
    by (simp add: ConfiguracaoApp_getInstance_def new_ConfiguracaoApp_def alloc_def)
  have f: "Logger_instancia w = None \<longrightarrow>
        (\<exists>w'. Logger_getInstance w = (next_ref w + 1, w')
           \<and> heap w' (next_ref w + 1) = Some (Logger_obj (next_ref w))
           \<and> heap w' (next_ref w) = Some (Array_obj [])
           \<and> Logger_instancia w' = Some (next_ref w + 1))"
    by (simp add: Logger_getInstance_def new_Logger_def alloc_def)
  have g: "ContadorGlobal_instancia w = None \<longrightarrow>
        (\<exists>w'. ContadorGlobal_getInstance w = (next_ref w, w')
           \<and> heap w' (next_ref w) = Some (ContadorGlobal_obj (Fin 0))
           \<and> ContadorGlobal_instancia w' = Some (next_ref w))"
    by (simp add: ContadorGlobal_getInstance_def new_ContadorGlobal_def alloc_def)
  have h: "ConfiguracaoApp_instancia initial_world = None
     \<and> Logger_instancia initial_world = None \<and> ContadorGlobal_instancia initial_world = None"
    by (simp add: initial_world_def)
  show ?thesis using a b c d e f g h exec_all_instancias [of w r cs]
    by blast
qed

theorem C3_singletons_witness:
  "ConfiguracaoApp_instancia initial_world = None
   \<and> Logger_instancia initial_world = None
   \<and> ContadorGlobal_instancia initial_world = None
   \<and> ConfiguracaoApp_instancia (snd (ConfiguracaoApp_getInstance initial_world)) = Some 0
   \<and> Logger_instancia (snd (Logger_getInstance initial_world)) = Some 1
   \<and> ContadorGlobal_instancia (snd (ContadorGlobal_getInstance initial_world)) = Some 0
   \<and> ConfiguracaoApp_instancia mundo_exemplo = Some 0
   \<and> Logger_instancia mundo_exemplo = Some 2
   \<and> ContadorGlobal_instancia mundo_exemplo = Some 3
   \<and> ConfiguracaoApp_getInstance mundo_exemplo = (0, mundo_exemplo)
   \<and> Logger_getInstance mundo_exemplo = (2, mundo_exemplo)
   \<and> ContadorGlobal_getInstance mundo_exemplo = (3, mundo_exemplo)
   \<and> ConfiguracaoApp_instancia (exec_all chamadas_exemplo mundo_exemplo) = Some 0
   \<and> Logger_instancia (exec_all chamadas_exemplo mundo_exemplo) = Some 2
   \<and> ContadorGlobal_instancia (exec_all chamadas_exemplo mundo_exemplo) = Some 3"
proof -
  have i: "ConfiguracaoApp_instancia initial_world = None"
    "Logger_instancia initial_world = None" "ContadorGlobal_instancia initial_world = None"
    "next_ref initial_world = 0"
    by (simp_all add: initial_world_def)
  have m: "ConfiguracaoApp_instancia mundo_exemplo = Some 0"
    "Logger_instancia mundo_exemplo = Some 2" "ContadorGlobal_instancia mundo_exemplo = Some 3"
    by (simp_all add: mundo_exemplo_def initial_world_def singleton_defs)
  show ?thesis
    using i m C3_singletons [of chamadas_exemplo initial_world 0]
      C3_singletons [of chamadas_exemplo mundo_exemplo 0]
      C3_singletons [of chamadas_exemplo mundo_exemplo 2]
      C3_singletons [of chamadas_exemplo mundo_exemplo 3]
    by auto
qed

lemma bem_formado_initial: "bem_formado initial_world"
  by (simp add: bem_formado_def initial_world_def)

lemma bem_formado_exec:
  assumes bf: "bem_formado w"
  shows "bem_formado (exec c w)"
proof -
  have A: "\<And>r. next_ref w \<le> r \<Longrightarrow> heap w r = None"
    using bf by (simp add: bem_formado_def)
  have B: "\<And>l a. heap w l = Some (Logger_obj a) \<Longrightarrow> \<exists>xs. heap w a = Some (Array_obj xs)"
    using bf unfolding bem_formado_def by blast
  have C: "\<And>l. Logger_instancia w = Some l \<Longrightarrow> \<exists>a. heap w l = Some (Logger_obj a)"
    using bf unfolding bem_formado_def by blast
  show ?thesis
    unfolding bem_formado_def
    by (cases c)
      (auto simp: A singleton_defs Let_def dest: B C
        split: option.splits obj.splits sum.splits prod.splits)
qed


lemma bem_formado_exec_all: "bem_formado w \<Longrightarrow> bem_formado (exec_all cs w)"
  by (induction cs arbitrary: w) (simp_all add: bem_formado_exec)

text \<open>
  C9. In a well-formed world, take a logger whose field \<open>logs\<close> refers to the array
  \<open>a\<close>, and let \<open>xs\<close> be the entries that array holds. \<open>getLogs\<close> on the logger
  returns a reference that held no object before and differs from the logger and from
  \<open>a\<close>, and puts there an array with exactly the entries \<open>xs\<close>; the logger and the
  array \<open>a\<close> are as before. Whatever the caller then makes of the elements of the
  returned array, the logger and \<open>a\<close> stay as they were, \<open>exportarLogs\<close> returns the
  entries \<open>xs\<close> joined by line feeds, which is what it returned before the copy was
  taken, and a later \<open>getLogs\<close> returns an array with the entries \<open>xs\<close>.
\<close>

theorem C9_getLogs_copia:
  assumes bf: "bem_formado w" and lg: "heap w this = Some (Logger_obj a)"
  shows "\<exists>xs r w'. heap w a = Some (Array_obj xs)
           \<and> getLogs this w = (Inr r, w')
           \<and> r \<noteq> a \<and> r \<noteq> this \<and> heap w r = None
           \<and> heap w' r = Some (Array_obj xs)
           \<and> heap w' this = Some (Logger_obj a) \<and> heap w' a = Some (Array_obj xs)
           \<and> fst (exportarLogs this w) = Inr (join [CHR 0x0A] xs)
           \<and> (\<forall>ys. heap (array_mutate r ys w') r = Some (Array_obj ys)
                 \<and> heap (array_mutate r ys w') this = Some (Logger_obj a)
                 \<and> heap (array_mutate r ys w') a = Some (Array_obj xs)
                 \<and> fst (exportarLogs this (array_mutate r ys w')) = Inr (join [CHR 0x0A] xs)
                 \<and> (\<exists>r2 w2. getLogs this (array_mutate r ys w') = (Inr r2, w2)
                       \<and> heap w2 r2 = Some (Array_obj xs)
                       \<and> r2 \<noteq> r \<and> r2 \<noteq> a))"
proof -
  have A: "\<And>r. next_ref w \<le> r \<Longrightarrow> heap w r = None"
    using bf by (simp add: bem_formado_def)
  obtain xs where a: "heap w a = Some (Array_obj xs)"
    using bf lg unfolding bem_formado_def by blast
  have lt: "this \<noteq> next_ref w" "a \<noteq> next_ref w"
    using A [of this] A [of a] lg a by auto
  have lt2: "a \<noteq> Suc (next_ref w)"
    using A [of a] a by auto
  have fresh: "heap w (next_ref w) = None" using A by simp
  let ?w' = "w\<lparr>heap := (heap w)(next_ref w \<mapsto> Array_obj xs), next_ref := Suc (next_ref w)\<rparr>"
  have 1: "logs_de this w = Inr (a, xs)" using lg a by (simp add: logs_de_def)
  have 2: "getLogs this w = (Inr (next_ref w), ?w')"
    using 1 by (simp add: getLogs_def alloc_def)
  have 3: "\<And>ys. array_mutate (next_ref w) ys ?w'
      = w\<lparr>heap := (heap w)(next_ref w \<mapsto> Array_obj ys), next_ref := Suc (next_ref w)\<rparr>"
    by (simp add: array_mutate_def)
  have 4: "\<And>ys. logs_de this (array_mutate (next_ref w) ys ?w') = Inr (a, xs)"
    using lg a lt by (simp add: 3 logs_de_def)
  have 5: "\<And>ys. fst (exportarLogs this (array_mutate (next_ref w) ys ?w')) = Inr (join [CHR 0x0A] xs)"
    using 4 by (simp add: exportarLogs_def)
  have e0: "fst (exportarLogs this w) = Inr (join [CHR 0x0A] xs)"
    using 1 by (simp add: exportarLogs_def)
  have 6: "\<And>ys. \<exists>r2 w2. getLogs this (array_mutate (next_ref w) ys ?w') = (Inr r2, w2)
                       \<and> heap w2 r2 = Some (Array_obj xs) \<and> r2 \<noteq> next_ref w \<and> r2 \<noteq> a"
    using 4 lt2 by (simp add: getLogs_def alloc_def 3)
  have 7: "\<And>ys. heap (array_mutate (next_ref w) ys ?w') (next_ref w) = Some (Array_obj ys)
      \<and> heap (array_mutate (next_ref w) ys ?w') this = Some (Logger_obj a)
      \<and> heap (array_mutate (next_ref w) ys ?w') a = Some (Array_obj xs)"
    using lt lg a by (simp add: 3)
  have 8: "heap ?w' this = Some (Logger_obj a)" "heap ?w' a = Some (Array_obj xs)"
    using lt lg a by simp_all
  show ?thesis
    using a 2 lt fresh 5 e0 6 7 8
    by (intro exI [of _ xs] exI [of _ "next_ref w"] exI [of _ ?w']) simp
qed

theorem C9_getLogs_copia_witness:
  "bem_formado mundo_exemplo
   \<and> heap mundo_exemplo 2 = Some (Logger_obj 1)
   \<and> heap mundo_exemplo 1 = Some (Array_obj
        [''[2025-01-01T10:00:00.000Z] INFO: Aplicacao iniciada'',
         ''[2025-01-01T10:00:01.000Z] WARN: Configuracao de debug ativada'',
         ''[2025-01-01T10:00:02.000Z] ERROR: Erro simulado para teste''])
   \<and> (\<exists>r w'. getLogs 2 mundo_exemplo = (Inr r, w')
           \<and> r \<noteq> 1 \<and> r \<noteq> 2 \<and> heap mundo_exemplo r = None
           \<and> heap w' r = Some (Array_obj
                [''[2025-01-01T10:00:00.000Z] INFO: Aplicacao iniciada'',
                 ''[2025-01-01T10:00:01.000Z] WARN: Configuracao de debug ativada'',
                 ''[2025-01-01T10:00:02.000Z] ERROR: Erro simulado para teste''])
           \<and> heap w' 2 = Some (Logger_obj 1)
           \<and> (\<forall>ys. heap (array_mutate r ys w') r = Some (Array_obj ys)
                 \<and> heap (array_mutate r ys w') 1 = heap mundo_exemplo 1
                 \<and> fst (exportarLogs 2 (array_mutate r ys w')) = fst (exportarLogs 2 mundo_exemplo)
                 \<and> (\<exists>r2 w2. getLogs 2 (array_mutate r ys w') = (Inr r2, w2)
                       \<and> heap w2 r2 = Some (Array_obj
                            [''[2025-01-01T10:00:00.000Z] INFO: Aplicacao iniciada'',
                             ''[2025-01-01T10:00:01.000Z] WARN: Configuracao de debug ativada'',
                             ''[2025-01-01T10:00:02.000Z] ERROR: Erro simulado para teste'']))))"
proof -
  have bf: "bem_formado mundo_exemplo"
    unfolding mundo_exemplo_def by (rule bem_formado_exec_all [OF bem_formado_initial])
  have lg: "heap mundo_exemplo 2 = Some (Logger_obj 1)"
    by (simp add: mundo_exemplo_def initial_world_def singleton_defs)
  have ar: "heap mundo_exemplo 1 = Some (Array_obj
        [''[2025-01-01T10:00:00.000Z] INFO: Aplicacao iniciada'',
         ''[2025-01-01T10:00:01.000Z] WARN: Configuracao de debug ativada'',
         ''[2025-01-01T10:00:02.000Z] ERROR: Erro simulado para teste''])"
    by (simp add: mundo_exemplo_def initial_world_def singleton_defs)
  from C9_getLogs_copia [OF bf lg] obtain xs r w' where
    c: "heap mundo_exemplo 1 = Some (Array_obj xs)"
      "getLogs 2 mundo_exemplo = (Inr r, w')"
      "r \<noteq> 1" "r \<noteq> 2" "heap mundo_exemplo r = None"
      "heap w' r = Some (Array_obj xs)" "heap w' 2 = Some (Logger_obj 1)"
      "fst (exportarLogs 2 mundo_exemplo) = Inr (join [CHR 0x0A] xs)"
      "\<forall>ys. heap (array_mutate r ys w') r = Some (Array_obj ys)
                 \<and> heap (array_mutate r ys w') 2 = Some (Logger_obj 1)
                 \<and> heap (array_mutate r ys w') 1 = Some (Array_obj xs)
                 \<and> fst (exportarLogs 2 (array_mutate r ys w')) = Inr (join [CHR 0x0A] xs)
                 \<and> (\<exists>r2 w2. getLogs 2 (array_mutate r ys w') = (Inr r2, w2)
                       \<and> heap w2 r2 = Some (Array_obj xs)
                       \<and> r2 \<noteq> r \<and> r2 \<noteq> 1)"
    by blast
  from c(1) ar have xs: "xs = [''[2025-01-01T10:00:00.000Z] INFO: Aplicacao iniciada'',
         ''[2025-01-01T10:00:01.000Z] WARN: Configuracao de debug ativada'',
         ''[2025-01-01T10:00:02.000Z] ERROR: Erro simulado para teste'']"
    by simp
  have "\<forall>ys. heap (array_mutate r ys w') r = Some (Array_obj ys)
                 \<and> heap (array_mutate r ys w') 1 = heap mundo_exemplo 1
                 \<and> fst (exportarLogs 2 (array_mutate r ys w')) = fst (exportarLogs 2 mundo_exemplo)
                 \<and> (\<exists>r2 w2. getLogs 2 (array_mutate r ys w') = (Inr r2, w2)
                       \<and> heap w2 r2 = Some (Array_obj xs))"
    using c(1,8,9) by metis
  then show ?thesis
    using bf lg ar c(2-7) unfolding xs by blast
qed

section \<open>Properties of \<open>Calculadora\<close> and \<open>ContaBancaria\<close>\<close>

text \<open>
  C8. \<open>dividir\<close> throws exactly when the divisor is zero, and what it throws is the error
  about the division by zero; on every other divisor (\<open>NaN\<close> and the infinities included)
  it returns the quotient \<open>a / b\<close> of the language, which for finite operands is the
  quotient of the two numbers rounded to double.
\<close>

theorem C8_dividir:
  "((\<exists>e. dividir a b = Inl e) \<longleftrightarrow> b = Fin 0)
   \<and> (b = Fin 0 \<longrightarrow> dividir a b = Inl DivisaoPorZero)
   \<and> (b \<noteq> Fin 0 \<longrightarrow> dividir a b = Inr (js_div a b))
   \<and> (\<forall>x y. a = Fin x \<and> b = Fin y \<and> y \<noteq> 0 \<longrightarrow> dividir a b = Inr (to_double (x / y)))"
  by (cases b) (auto simp: dividir_def)

theorem C8_dividir_witness:
  "dividir (Fin 15) (Fin 0) = Inl DivisaoPorZero
   \<and> Fin 3 \<noteq> Fin 0 \<and> dividir (Fin 15) (Fin 3) = Inr (Fin 5)
   \<and> dividir (Fin 1) (Fin 3) = Inr (Fin (6004799503160661 / 18014398509481984))
   \<and> Fin (1 / 2) \<noteq> Fin 0 \<and> dividir (Fin (2 ^ 1023)) (Fin (1 / 2)) = Inr PosInf
   \<and> NaN \<noteq> Fin 0 \<and> dividir (Fin 15) NaN = Inr NaN"
proof -
  have q: "to_double (15 / 3) = Fin 5" by (simp add: to_double_int)
  show ?thesis
    using q to_double_one_third to_double_overflow
      C8_dividir [of "Fin 15" "Fin 0"] C8_dividir [of "Fin 15" "Fin 3"]
      C8_dividir [of "Fin 1" "Fin 3"] C8_dividir [of "Fin (2 ^ 1023)" "Fin (1 / 2)"]
      C8_dividir [of "Fin 15" NaN]
    by simp
qed

lemma validarValor_iff: "validarValor valor \<longleftrightarrow> (\<exists>v. valor = Fin v \<and> 0 < v)"
  by (cases valor) (auto simp: validarValor_def js_gt_def)

text \<open>
  C5. For every finite amount \<open>v\<close> greater than zero and two distinct accounts \<open>A\<close> and
  \<open>B\<close> of the store with the balance of \<open>A\<close> at least \<open>v\<close>, \<open>transferir\<close> from
  \<open>A\<close> to \<open>B\<close> returns without throwing, the balance of \<open>A\<close> is then the double
  nearest to its old value minus \<open>v\<close> and the balance of \<open>B\<close> the double nearest to its
  old value plus \<open>v\<close>, and no other account has changed; the two balances are exactly the
  old value minus \<open>v\<close> and the old value plus \<open>v\<close> where these are integers of
  magnitude up to \<open>2^53\<close>. For every amount greater than the balance of \<open>A\<close>,
  \<open>sacar\<close> on \<open>A\<close> throws and returns the store it was given, and so does
  \<open>transferir\<close> from \<open>A\<close>: the balances of both accounts are as before.
\<close>

theorem C5_transferir:
  "(s a = Some A \<and> s b = Some B \<and> a \<noteq> b \<and> 0 < v \<and> js_ge (saldo A) (Fin v) \<longrightarrow>
      (\<exists>s'. transferir a (Fin v) b s = (Inr (), s')
         \<and> consultarSaldo a s' = Inr (js_sub (saldo A) (Fin v))
         \<and> consultarSaldo b s' = Inr (js_add (saldo B) (Fin v))
         \<and> (\<forall>x y. saldo A = Fin x \<and> saldo B = Fin y \<longrightarrow>
               consultarSaldo a s' = Inr (to_double (x - v))
               \<and> consultarSaldo b s' = Inr (to_double (y + v)))
         \<and> (\<forall>x y. saldo A = Fin x \<and> saldo B = Fin y
                 \<and> x - v \<in> \<int> \<and> \<bar>x - v\<bar> \<le> 2 ^ 53 \<and> y + v \<in> \<int> \<and> \<bar>y + v\<bar> \<le> 2 ^ 53 \<longrightarrow>
               consultarSaldo a s' = Inr (Fin (x - v))
               \<and> consultarSaldo b s' = Inr (Fin (y + v)))
         \<and> (\<forall>r. r \<noteq> a \<and> r \<noteq> b \<longrightarrow> s' r = s r)))
   \<and> (s a = Some A \<and> js_gt valor (saldo A) \<longrightarrow>
        (\<exists>e. sacar a valor s = (Inl e, s)) \<and> (\<exists>e. transferir a valor b s = (Inl e, s)))"
proof -
  have 1: "s a = Some A \<and> s b = Some B \<and> a \<noteq> b \<and> 0 < v \<and> js_ge (saldo A) (Fin v) \<longrightarrow>
      (\<exists>s'. transferir a (Fin v) b s = (Inr (), s')
         \<and> consultarSaldo a s' = Inr (js_sub (saldo A) (Fin v))
         \<and> consultarSaldo b s' = Inr (js_add (saldo B) (Fin v))
         \<and> (\<forall>x y. saldo A = Fin x \<and> saldo B = Fin y \<longrightarrow>
               consultarSaldo a s' = Inr (to_double (x - v))
               \<and> consultarSaldo b s' = Inr (to_double (y + v)))
         \<and> (\<forall>x y. saldo A = Fin x \<and> saldo B = Fin y
                 \<and> x - v \<in> \<int> \<and> \<bar>x - v\<bar> \<le> 2 ^ 53 \<and> y + v \<in> \<int> \<and> \<bar>y + v\<bar> \<le> 2 ^ 53 \<longrightarrow>
               consultarSaldo a s' = Inr (Fin (x - v))
               \<and> consultarSaldo b s' = Inr (Fin (y + v)))
         \<and> (\<forall>r. r \<noteq> a \<and> r \<noteq> b \<longrightarrow> s' r = s r))"
    by (auto simp: transferir_def sacar_def depositar_def validarValor_iff
        temSaldoSuficiente_def consultarSaldo_def js_sub_def to_double_int)
  have 2: "s a = Some A \<and> js_gt valor (saldo A) \<longrightarrow> (\<exists>e. sacar a valor s = (Inl e, s))"
    by (cases valor; cases "saldo A")
      (auto simp: sacar_def validarValor_iff temSaldoSuficiente_def js_ge_def js_gt_def)
  have 3: "(\<exists>e. sacar a valor s = (Inl e, s)) \<longrightarrow> (\<exists>e. transferir a valor b s = (Inl e, s))"
    by (auto simp: transferir_def)
  show ?thesis using 1 2 3 by blast
qed

theorem C5_transferir_witness:
  "contas_exemplo 0 = Some (new_ContaBancaria ''12345'' ''Joao Silva'' (Some (Fin 1000)))
   \<and> contas_exemplo 1 = Some (new_ContaBancaria ''67890'' ''Maria Santos'' (Some (Fin 500)))
   \<and> (0::nat) \<noteq> 1 \<and> (0::rat) < 300
   \<and> js_ge (saldo (new_ContaBancaria ''12345'' ''Joao Silva'' (Some (Fin 1000)))) (Fin 300)
   \<and> (1000::rat) - 300 \<in> \<int> \<and> \<bar>(1000::rat) - 300\<bar> \<le> 2 ^ 53
   \<and> (500::rat) + 300 \<in> \<int> \<and> \<bar>(500::rat) + 300\<bar> \<le> 2 ^ 53
   \<and> (\<exists>s'. transferir 0 (Fin 300) 1 contas_exemplo = (Inr (), s')
         \<and> consultarSaldo 0 s' = Inr (Fin 700) \<and> consultarSaldo 1 s' = Inr (Fin 800))
   \<and> js_gt (Fin 5000) (saldo (new_ContaBancaria ''12345'' ''Joao Silva'' (Some (Fin 1000))))
   \<and> sacar 0 (Fin 5000) contas_exemplo = (Inl SaldoInsuficiente, contas_exemplo)
   \<and> (\<exists>e. transferir 0 (Fin 5000) 1 contas_exemplo = (Inl e, contas_exemplo))"
proof -
  have a: "contas_exemplo 0 = Some (new_ContaBancaria ''12345'' ''Joao Silva'' (Some (Fin 1000)))"
    "contas_exemplo 1 = Some (new_ContaBancaria ''67890'' ''Maria Santos'' (Some (Fin 500)))"
    by (simp_all add: contas_exemplo_def)
  have b: "js_ge (saldo (new_ContaBancaria ''12345'' ''Joao Silva'' (Some (Fin 1000)))) (Fin 300)"
    "js_gt (Fin 5000) (saldo (new_ContaBancaria ''12345'' ''Joao Silva'' (Some (Fin 1000))))"
    "saldo (new_ContaBancaria ''12345'' ''Joao Silva'' (Some (Fin 1000))) = Fin 1000"
    "saldo (new_ContaBancaria ''67890'' ''Maria Santos'' (Some (Fin 500))) = Fin 500"
    by (simp_all add: new_ContaBancaria_def js_ge_def js_gt_def)
  have c: "sacar 0 (Fin 5000) contas_exemplo = (Inl SaldoInsuficiente, contas_exemplo)"
    using a b by (simp add: sacar_def validarValor_def temSaldoSuficiente_def js_gt_def js_ge_def)
  have d: "(1000::rat) - 300 \<in> \<int>" "\<bar>(1000::rat) - 300\<bar> \<le> 2 ^ 53"
    "(500::rat) + 300 \<in> \<int>" "\<bar>(500::rat) + 300\<bar> \<le> 2 ^ 53"
    by simp_all
  from C5_transferir [of contas_exemplo 0 "new_ContaBancaria ''12345'' ''Joao Silva'' (Some (Fin 1000))"
        1 "new_ContaBancaria ''67890'' ''Maria Santos'' (Some (Fin 500))" 300 "Fin 5000"] a b d
  obtain s' where s': "transferir 0 (Fin 300) 1 contas_exemplo = (Inr (), s')"
    "consultarSaldo 0 s' = Inr (Fin (1000 - 300))" "consultarSaldo 1 s' = Inr (Fin (500 + 300))"
    by auto
  from C5_transferir [of contas_exemplo 0 "new_ContaBancaria ''12345'' ''Joao Silva'' (Some (Fin 1000))"
        1 "new_ContaBancaria ''67890'' ''Maria Santos'' (Some (Fin 500))" 300 "Fin 5000"] a b
  have e: "\<exists>e. transferir 0 (Fin 5000) 1 contas_exemplo = (Inl e, contas_exemplo)"
    by blast
  show ?thesis using a b c d e s' by auto
qed

text \<open>
  The claim without these conditions fails three ways. The amount \<open>-5\<close> is within the
  balance 1000 of the first account of the demonstration block: the transfer throws the
  error about the value and both balances stay. The transfer of 300 from the first
  account to itself returns and leaves its balance at 1000. And the transfer of 1 from an
  account with balance 1 to an account with balance \<open>2^53\<close> returns, takes the first
  balance to 0 and leaves the second at \<open>2^53\<close>, the double nearest to \<open>2^53 + 1\<close>.
\<close>

theorem C5_counterexample:
  "consultarSaldo 0 contas_exemplo = Inr (Fin 1000)
   \<and> consultarSaldo 1 contas_exemplo = Inr (Fin 500)
   \<and> js_ge (Fin 1000) (Fin (- 5))
   \<and> transferir 0 (Fin (- 5)) 1 contas_exemplo = (Inl ValorDeveSerPositivo, contas_exemplo)
   \<and> consultarSaldo 0 (snd (transferir 0 (Fin (- 5)) 1 contas_exemplo)) = Inr (Fin 1000)
   \<and> Fin 1000 \<noteq> Fin (1000 - (- 5))
   \<and> js_ge (Fin 1000) (Fin 300)
   \<and> fst (transferir 0 (Fin 300) 0 contas_exemplo) = Inr ()
   \<and> consultarSaldo 0 (snd (transferir 0 (Fin 300) 0 contas_exemplo)) = Inr (Fin 1000)
   \<and> Fin 1000 \<noteq> Fin (1000 - 300)
   \<and> consultarSaldo 0 contas_grandes = Inr (Fin 1)
   \<and> consultarSaldo 1 contas_grandes = Inr (Fin (2 ^ 53))
   \<and> js_ge (Fin 1) (Fin 1)
   \<and> fst (transferir 0 (Fin 1) 1 contas_grandes) = Inr ()
   \<and> consultarSaldo 0 (snd (transferir 0 (Fin 1) 1 contas_grandes)) = Inr (Fin 0)
   \<and> consultarSaldo 1 (snd (transferir 0 (Fin 1) 1 contas_grandes)) = Inr (Fin (2 ^ 53))
   \<and> Fin (2 ^ 53) \<noteq> Fin (2 ^ 53 + 1)"
  by (simp add: contas_exemplo_def contas_grandes_def transferir_def sacar_def depositar_def
      validarValor_def temSaldoSuficiente_def consultarSaldo_def new_ContaBancaria_def
      js_sub_def js_ge_def js_gt_def to_double_int to_double_2_53_plus_1)

lemma depositar_nao_negativo:
  assumes "s r = Some c" and "js_ge (saldo c) (Fin 0)"
  shows "\<exists>c'. snd (depositar this valor s) r = Some c' \<and> js_ge (saldo c') (Fin 0)"
proof -
  from assms(2) consider "saldo c = PosInf" | ra where "saldo c = Fin ra" "0 \<le> ra"
    by (auto simp: js_ge_zero_iff)
  then show ?thesis
  proof cases
    case 1
    then show ?thesis
      using assms by (auto simp: depositar_def validarValor_iff split: option.splits)
  next
    case 2
    then show ?thesis
      using assms
      by (auto simp: depositar_def validarValor_iff js_ge_to_double split: option.splits)
  qed
qed

lemma sacar_nao_negativo:
  assumes "s r = Some c" and "js_ge (saldo c) (Fin 0)"
  shows "\<exists>c'. snd (sacar this valor s) r = Some c' \<and> js_ge (saldo c') (Fin 0)"
proof -
  from assms(2) consider "saldo c = PosInf" | ra where "saldo c = Fin ra" "0 \<le> ra"
    by (auto simp: js_ge_zero_iff)
  then show ?thesis
  proof cases
    case 1
    then show ?thesis
      using assms
      by (auto simp: sacar_def validarValor_iff temSaldoSuficiente_def js_sub_def
          split: option.splits)
  next
    case 2
    then show ?thesis
      using assms
      by (auto simp: sacar_def validarValor_iff temSaldoSuficiente_def js_sub_def
          js_ge_Fin_Fin js_ge_to_double split: option.splits)
  qed
qed

lemma snd_transferir:
  "snd (transferir this valor contaDestino s) =
     (case fst (sacar this valor s) of
        Inl e \<Rightarrow> snd (sacar this valor s)
      | Inr u \<Rightarrow> snd (depositar contaDestino valor (snd (sacar this valor s))))"
  by (simp add: transferir_def split: prod.splits sum.splits)

lemma executar_nao_negativo:
  assumes "s r = Some c" and "js_ge (saldo c) (Fin 0)"
  shows "\<exists>c'. executar x s r = Some c' \<and> js_ge (saldo c') (Fin 0)"
proof (cases x)
  case (Depositar this valor)
  then show ?thesis using depositar_nao_negativo [of s r c this valor] assms by simp
next
  case (Sacar this valor)
  then show ?thesis using sacar_nao_negativo [of s r c this valor] assms by simp
next
  case (Transferir this valor contaDestino)
  obtain c1 where c1: "snd (sacar this valor s) r = Some c1" "js_ge (saldo c1) (Fin 0)"
    using sacar_nao_negativo [of s r c this valor] assms by blast
  show ?thesis
    using Transferir c1 depositar_nao_negativo [of "snd (sacar this valor s)" r c1 contaDestino valor]
    by (simp add: snd_transferir split: sum.splits)
qed

lemma executar_todas_nao_negativo:
  "s r = Some c \<Longrightarrow> js_ge (saldo c) (Fin 0) \<Longrightarrow>
     \<exists>c'. executar_todas xs s r = Some c' \<and> js_ge (saldo c') (Fin 0)"
proof (induction xs arbitrary: s c)
  case Nil
  then show ?case by simp
next
  case (Cons x xs)
  obtain c1 where "executar x s r = Some c1" "js_ge (saldo c1) (Fin 0)"
    using executar_nao_negativo [of s r c x] Cons.prems by blast
  then show ?case using Cons.IH [of "executar x s" c1] by simp
qed

text \<open>
  C10. An account built by the constructor with an initial balance that is not negative
  (or with the default balance) and put into a store keeps a balance that is not negative
  through every sequence of \<open>depositar\<close>, \<open>sacar\<close> and \<open>transferir\<close> on the accounts
  of the store, whether the operations return or throw.
\<close>

theorem C10_saldo_nao_negativo:
  assumes "s r = Some (new_ContaBancaria numero nome saldoInicial)"
    and "\<forall>v. saldoInicial = Some v \<longrightarrow> js_ge v (Fin 0)"
  shows "\<exists>c. executar_todas xs s r = Some c \<and> js_ge (saldo c) (Fin 0)
           \<and> consultarSaldo r (executar_todas xs s) = Inr (saldo c)"
proof -
  have "js_ge (saldo (new_ContaBancaria numero nome saldoInicial)) (Fin 0)"
    using assms(2) by (cases saldoInicial) (simp_all add: new_ContaBancaria_def js_ge_def)
  then show ?thesis
    using executar_todas_nao_negativo
      [of s r "new_ContaBancaria numero nome saldoInicial" xs] assms(1)
    by (auto simp: consultarSaldo_def)
qed

theorem C10_saldo_nao_negativo_witness:
  "contas_exemplo 0 = Some (new_ContaBancaria ''12345'' ''Joao Silva'' (Some (Fin 1000)))
   \<and> js_ge (Fin 1000) (Fin 0)
   \<and> (\<exists>c. executar_todas
              [Depositar 0 (Fin 200), Sacar 0 (Fin 150), Transferir 0 (Fin 300) 1,
               Sacar 0 (Fin 5000), Depositar 1 NaN] contas_exemplo 0 = Some c
          \<and> js_ge (saldo c) (Fin 0)
          \<and> consultarSaldo 0 (executar_todas
              [Depositar 0 (Fin 200), Sacar 0 (Fin 150), Transferir 0 (Fin 300) 1,
               Sacar 0 (Fin 5000), Depositar 1 NaN] contas_exemplo) = Inr (saldo c))"
proof -
  have a: "contas_exemplo 0 = Some (new_ContaBancaria ''12345'' ''Joao Silva'' (Some (Fin 1000)))"
    by (simp add: contas_exemplo_def)
  have b: "\<forall>v. Some (Fin 1000) = Some v \<longrightarrow> js_ge v (Fin 0)"
    by (simp add: js_ge_def)
  show ?thesis
    using a b C10_saldo_nao_negativo [of contas_exemplo 0 "''12345''" "''Joao Silva''"
        "Some (Fin 1000)" "[Depositar 0 (Fin 200), Sacar 0 (Fin 150), Transferir 0 (Fin 300) 1,
               Sacar 0 (Fin 5000), Depositar 1 NaN]"]
    by (simp add: js_ge_def)
qed

section \<open>Properties of \<open>Animal\<close>\<close>

text \<open>
  C7. Iterating over the sequence of the four animals and writing what \<open>emitirSom\<close>
  returns on each gives, in the order of the sequence, the line of the class of each
  animal: what \<open>emitirSom\<close> of the \<open>Cachorro\<close>, the \<open>Gato\<close>, the \<open>Vaca\<close> and the
  \<open>Pato\<close> returns; the four lines are pairwise distinct.
\<close>

theorem C7_emitirSom_polimorfico:
  "forEach_emitirSom animais [] =
     [''Rex faz: Au au au!'', ''Mimi faz: Miau miau!'', ''Mimosa faz: Muuuu!'',
      ''Donald faz: Quack quack!'']
   \<and> forEach_emitirSom animais [] = map emitirSom animais
   \<and> distinct (forEach_emitirSom animais [])"
  by (simp add: animais_def)

end
